theory Spec2Isabelle
  imports Complex_Main "HOL-Library.Char_ord" "HOL-Library.List_Lexorder" "HOL-Library.AList"
begin

section \<open>Strings as the handlers use them\<close>

text \<open>
  A JavaScript string is modelled as a \<open>string\<close> (a list of characters). The white space
  removed by \<open>String.prototype.trim\<close> (and by the validator's \<open>trim\<close> sanitizer) is
  modelled on its ASCII part: tab, line feed, vertical tab, form feed, carriage return and
  space. \<open>toLowerCase\<close> is modelled on the ASCII letters.
\<close>

definition isWhiteSpace :: "char \<Rightarrow> bool" where
  "isWhiteSpace c = ((of_char c :: nat) \<in> set [9, 10, 11, 12, 13, 32])"

definition trim :: "string \<Rightarrow> string" where
  "trim s = rev (dropWhile isWhiteSpace (rev (dropWhile isWhiteSpace s)))"

definition lowerChar :: "char \<Rightarrow> char" where
  "lowerChar c =
     (if 65 \<le> (of_char c :: nat) \<and> (of_char c :: nat) \<le> 90
      then char_of ((of_char c :: nat) + 32) else c)"

definition toLowerCase :: "string \<Rightarrow> string" where
  "toLowerCase s = map lowerChar s"

section \<open>The data model (models/recipe.js)\<close>

text \<open>
  A stored document of the Recipe schema. \<open>cookingTime\<close> and \<open>servings\<close> have no
  default and may be unset; \<open>difficulty\<close> defaults to \<open>medium\<close>; the two time stamps
  are milliseconds since the epoch.
\<close>

record recipe =
  rid :: nat
  title :: string
  ingredients :: "string list"
  instructions :: string
  cookingTime :: "int option"
  servings :: "int option"
  difficulty :: string
  tags :: "string list"
  createdAt :: int
  updatedAt :: int

text \<open>
  The JSON body of a create or update request. A field is absent (\<open>None\<close>) or present
  with the type the schema gives it: strings for title, instructions and difficulty, arrays
  of strings for ingredients and tags, integers for cookingTime and servings, time stamps
  for createdAt and updatedAt (no rule of the validation names these two, so a client may
  send them). On such a body
  the test \<open>typeof ingredient === 'string'\<close> of the validator always holds, and
  \<open>isArray\<close> holds of every present array.
\<close>

record body =
  body_title :: "string option"
  body_ingredients :: "string list option"
  body_instructions :: "string option"
  body_cookingTime :: "int option"
  body_servings :: "int option"
  body_difficulty :: "string option"
  body_tags :: "string list option"
  body_createdAt :: "int option"
  body_updatedAt :: "int option"

section \<open>Request validation (middleware/validation.js)\<close>

text \<open>
  One entry of the validation result: the field and the message. The custom validator on
  ingredients calls \<open>ingredients.every\<close>; on an absent field that call throws a
  TypeError, which the validation library records as an error of the field with the
  exception's text (\<open>Thrown\<close> here).
\<close>

datatype vmsg = Msg string | Thrown

type_synonym verror = "string \<times> vmsg"

text \<open>The sanitizer \<open>trim()\<close> turns an absent field into the empty string.\<close>

definition trimField :: "string option \<Rightarrow> string" where
  "trimField v = (case v of None \<Rightarrow> [] | Some s \<Rightarrow> trim s)"

definition isLength :: "nat \<Rightarrow> nat \<Rightarrow> string \<Rightarrow> bool" where
  "isLength mn mx s = (mn \<le> length s \<and> length s \<le> mx)"

definition validate_title :: "string option \<Rightarrow> verror list" where
  "validate_title v =
     (let t = trimField v in
      (if t = [] then [(''title'', Msg ''Title is required'')] else []) @
      (if isLength 3 100 t then []
       else [(''title'', Msg ''Title must be between 3 and 100 characters'')]))"

definition nonEmptyString :: "string \<Rightarrow> bool" where
  "nonEmptyString s = (0 < length (trim s))"

definition validate_ingredients :: "string list option \<Rightarrow> verror list" where
  "validate_ingredients v =
     (case v of
        None \<Rightarrow> [(''ingredients'', Msg ''At least one ingredient is required''),
                 (''ingredients'', Thrown)]
      | Some xs \<Rightarrow>
          (if 1 \<le> length xs then []
           else [(''ingredients'', Msg ''At least one ingredient is required'')]) @
          (if list_all nonEmptyString xs then []
           else [(''ingredients'', Msg ''All ingredients must be non-empty strings'')]))"

definition validate_instructions :: "string option \<Rightarrow> verror list" where
  "validate_instructions v =
     (let t = trimField v in
      (if t = [] then [(''instructions'', Msg ''Instructions are required'')] else []) @
      (if isLength 10 2000 t then []
       else [(''instructions'', Msg ''Instructions must be between 10 and 2000 characters'')]))"

definition validate_cookingTime :: "int option \<Rightarrow> verror list" where
  "validate_cookingTime v =
     (case v of
        None \<Rightarrow> []
      | Some n \<Rightarrow> if 1 \<le> n then []
                 else [(''cookingTime'', Msg ''Cooking time must be a positive integer'')])"

definition validate_servings :: "int option \<Rightarrow> verror list" where
  "validate_servings v =
     (case v of
        None \<Rightarrow> []
      | Some n \<Rightarrow> if 1 \<le> n then []
                 else [(''servings'', Msg ''Servings must be a positive integer'')])"

definition difficultyEnum :: "string list" where
  "difficultyEnum = [''easy'', ''medium'', ''hard'']"

definition validate_difficulty :: "string option \<Rightarrow> verror list" where
  "validate_difficulty v =
     (case v of
        None \<Rightarrow> []
      | Some d \<Rightarrow> if d \<in> set difficultyEnum then []
                 else [(''difficulty'', Msg ''Difficulty must be easy, medium, or hard'')])"

definition validate_tags :: "string list option \<Rightarrow> verror list" where
  "validate_tags v = []"

text \<open>
  The chains run in the order of the array and every failing rule adds its error; the
  handlers read the collected list through \<open>validationResult\<close>.
\<close>

definition validateRecipe :: "body \<Rightarrow> verror list" where
  "validateRecipe b =
     validate_title (body_title b) @
     validate_ingredients (body_ingredients b) @
     validate_instructions (body_instructions b) @
     validate_cookingTime (body_cookingTime b) @
     validate_servings (body_servings b) @
     validate_difficulty (body_difficulty b) @
     validate_tags (body_tags b)"

text \<open>
  The sanitizers write their result back into the request body: a present title and
  present instructions reach the handler trimmed.
\<close>

definition sanitizeBody :: "body \<Rightarrow> body" where
  "sanitizeBody b =
     b\<lparr>body_title := map_option trim (body_title b),
       body_instructions := map_option trim (body_instructions b)\<rparr>"

section \<open>The write handlers (createRecipe, updateRecipe)\<close>

text \<open>
  What a handler answers when it does not succeed: the two validation failures and the
  malformed identifier (status 400), the missing document (404), and any other failure of
  the store (500).
\<close>

datatype error =
    ValidationFailed "verror list"
  | RecipeValidationFailed "string list"
  | InvalidIdFormat
  | NotFound
  | Unexpected

definition status :: "error \<Rightarrow> nat" where
  "status e = (case e of
      ValidationFailed _ \<Rightarrow> 400
    | RecipeValidationFailed _ \<Rightarrow> 400
    | InvalidIdFormat \<Rightarrow> 400
    | NotFound \<Rightarrow> 404
    | Unexpected \<Rightarrow> 500)"

text \<open>
  The path parameter \<open>:id\<close> as the store casts it: a parameter that is no identifier
  (the CastError of the handlers) or the identifier of a document.
\<close>

datatype idparam = Malformed | Oid nat

text \<open>
  The clean-up both handlers apply to a present ingredients and tags array once validation
  has passed: entries that are empty or blank are filtered out, the others are trimmed
  (tags are lower-cased as well).
\<close>

definition cleanIngredients :: "string list \<Rightarrow> string list" where
  "cleanIngredients xs = map trim (filter (\<lambda>i. i \<noteq> [] \<and> 0 < length (trim i)) xs)"

definition cleanTags :: "string list \<Rightarrow> string list" where
  "cleanTags xs =
     map (\<lambda>t. toLowerCase (trim t)) (filter (\<lambda>t. t \<noteq> [] \<and> 0 < length (trim t)) xs)"

definition cleanBody :: "body \<Rightarrow> body" where
  "cleanBody b =
     b\<lparr>body_ingredients := map_option cleanIngredients (body_ingredients b),
       body_tags := map_option cleanTags (body_tags b)\<rparr>"

text \<open>
  The validators of the schema (models/recipe.js): required and maxLength on title and
  instructions, required on every ingredient, min on cookingTime and servings, the enum of
  difficulty. Each returns the paths it rejects.
\<close>

definition schemaTitle :: "string \<Rightarrow> string list" where
  "schemaTitle t = (if t = [] \<or> 100 < length t then [''title''] else [])"

definition schemaIngredients :: "string list \<Rightarrow> string list" where
  "schemaIngredients xs = (if list_all (\<lambda>i. i \<noteq> []) xs then [] else [''ingredients''])"

definition schemaInstructions :: "string \<Rightarrow> string list" where
  "schemaInstructions t = (if t = [] \<or> 2000 < length t then [''instructions''] else [])"

definition schemaMin1 :: "string \<Rightarrow> int option \<Rightarrow> string list" where
  "schemaMin1 path v = (case v of None \<Rightarrow> [] | Some n \<Rightarrow> if 1 \<le> n then [] else [path])"

definition schemaDifficulty :: "string \<Rightarrow> string list" where
  "schemaDifficulty d = (if d \<in> set difficultyEnum then [] else [''difficulty''])"

definition schemaErrors :: "recipe \<Rightarrow> string list" where
  "schemaErrors r =
     schemaTitle (title r) @ schemaIngredients (ingredients r) @
     schemaInstructions (instructions r) @
     schemaMin1 ''cookingTime'' (cookingTime r) @ schemaMin1 ''servings'' (servings r) @
     schemaDifficulty (difficulty r)"

text \<open>
  \<open>Recipe.create\<close>: the document built from the body, with the schema's setters
  (\<open>trim\<close>) and defaults applied. \<open>oid\<close> is the identifier the store assigns,
  \<open>t0\<close> the clock when the defaults of createdAt and updatedAt are taken, \<open>t1\<close> the
  clock when the pre-save hook sets updatedAt, whatever the body gave for it.
\<close>

definition newRecipe :: "nat \<Rightarrow> int \<Rightarrow> int \<Rightarrow> body \<Rightarrow> recipe" where
  "newRecipe oid t0 t1 b =
     \<lparr>rid = oid,
      title = trim (case body_title b of None \<Rightarrow> [] | Some t \<Rightarrow> t),
      ingredients = map trim (case body_ingredients b of None \<Rightarrow> [] | Some xs \<Rightarrow> xs),
      instructions = trim (case body_instructions b of None \<Rightarrow> [] | Some t \<Rightarrow> t),
      cookingTime = body_cookingTime b,
      servings = body_servings b,
      difficulty = (case body_difficulty b of None \<Rightarrow> ''medium'' | Some d \<Rightarrow> d),
      tags = map trim (case body_tags b of None \<Rightarrow> [] | Some ts \<Rightarrow> ts),
      createdAt = (case body_createdAt b of None \<Rightarrow> t0 | Some c \<Rightarrow> c),
      updatedAt = t1\<rparr>"

definition createRecipe ::
  "recipe list \<Rightarrow> nat \<Rightarrow> int \<Rightarrow> int \<Rightarrow> body \<Rightarrow> (error + recipe) \<times> recipe list" where
  "createRecipe docs oid t0 t1 b =
     (let errors = validateRecipe b in
      if errors \<noteq> [] then (Inl (ValidationFailed errors), docs)
      else
        let r = newRecipe oid t0 t1 (cleanBody (sanitizeBody b)) in
        if schemaErrors r \<noteq> [] then (Inl (RecipeValidationFailed (schemaErrors r)), docs)
        else (Inr r, docs @ [r]))"

text \<open>
  \<open>findByIdAndUpdate(id, {...req.body, updatedAt: Date.now()}, {new: true, runValidators: true})\<close>:
  the fields present in the body are set (through the schema's setters), \<open>updatedAt\<close> is
  set to the clock \<open>now\<close> (the spread body comes first, so an updatedAt of the body is
  overridden), every other field keeps its value. The first document with
  the identifier is the one updated; the answer is the updated document, or nothing when no
  document has the identifier.
\<close>

definition applyUpdate :: "body \<Rightarrow> int \<Rightarrow> recipe \<Rightarrow> recipe" where
  "applyUpdate b now r =
     r\<lparr>title := (case body_title b of None \<Rightarrow> title r | Some t \<Rightarrow> trim t),
       ingredients := (case body_ingredients b of None \<Rightarrow> ingredients r | Some xs \<Rightarrow> map trim xs),
       instructions := (case body_instructions b of None \<Rightarrow> instructions r | Some t \<Rightarrow> trim t),
       cookingTime := (case body_cookingTime b of None \<Rightarrow> cookingTime r | Some n \<Rightarrow> Some n),
       servings := (case body_servings b of None \<Rightarrow> servings r | Some n \<Rightarrow> Some n),
       difficulty := (case body_difficulty b of None \<Rightarrow> difficulty r | Some d \<Rightarrow> d),
       tags := (case body_tags b of None \<Rightarrow> tags r | Some ts \<Rightarrow> map trim ts),
       createdAt := (case body_createdAt b of None \<Rightarrow> createdAt r | Some c \<Rightarrow> c),
       updatedAt := now\<rparr>"

definition updateErrors :: "body \<Rightarrow> string list" where
  "updateErrors b =
     (case body_title b of None \<Rightarrow> [] | Some t \<Rightarrow> schemaTitle (trim t)) @
     (case body_ingredients b of None \<Rightarrow> [] | Some xs \<Rightarrow> schemaIngredients (map trim xs)) @
     (case body_instructions b of None \<Rightarrow> [] | Some t \<Rightarrow> schemaInstructions (trim t)) @
     schemaMin1 ''cookingTime'' (body_cookingTime b) @
     schemaMin1 ''servings'' (body_servings b) @
     (case body_difficulty b of None \<Rightarrow> [] | Some d \<Rightarrow> schemaDifficulty d)"

fun findById :: "nat \<Rightarrow> recipe list \<Rightarrow> recipe option" where
  "findById i [] = None"
| "findById i (d # ds) = (if rid d = i then Some d else findById i ds)"

fun replaceById :: "nat \<Rightarrow> recipe \<Rightarrow> recipe list \<Rightarrow> recipe list" where
  "replaceById i r [] = []"
| "replaceById i r (d # ds) = (if rid d = i then r # ds else d # replaceById i r ds)"

definition findByIdAndUpdate ::
  "recipe list \<Rightarrow> idparam \<Rightarrow> body \<Rightarrow> int \<Rightarrow> (error + recipe option) \<times> recipe list" where
  "findByIdAndUpdate docs ident b now =
     (case ident of
        Malformed \<Rightarrow> (Inl InvalidIdFormat, docs)
      | Oid i \<Rightarrow>
          if updateErrors b \<noteq> [] then (Inl (RecipeValidationFailed (updateErrors b)), docs)
          else (case findById i docs of
                  None \<Rightarrow> (Inr None, docs)
                | Some r \<Rightarrow> (Inr (Some (applyUpdate b now r)),
                             replaceById i (applyUpdate b now r) docs)))"

definition updateRecipe ::
  "recipe list \<Rightarrow> idparam \<Rightarrow> int \<Rightarrow> body \<Rightarrow> (error + recipe) \<times> recipe list" where
  "updateRecipe docs ident now b =
     (let errors = validateRecipe b in
      if errors \<noteq> [] then (Inl (ValidationFailed errors), docs)
      else
        (case findByIdAndUpdate docs ident (cleanBody (sanitizeBody b)) now of
           (Inl e, docs') \<Rightarrow> (Inl e, docs')
         | (Inr None, docs') \<Rightarrow> (Inl NotFound, docs')
         | (Inr (Some r), docs') \<Rightarrow> (Inr r, docs')))"



subsection \<open>The collection over time\<close>






section \<open>JavaScript numbers and numeric parsing\<close>

text \<open>
  The query parameters of the read handlers are strings, and the handlers compute with them
  through \<open>parseInt\<close>, \<open>isNaN\<close> and the arithmetic operators, which convert a
  string operand to a number. A number is a double: NaN, the negative zero, an infinity
  (\<open>True\<close> for the negative one), or a finite double, kept as the rational it denotes;
  \<open>Fin 0\<close> is the positive zero. Every operation that produces a number from a
  mathematical value rounds that value to the nearest double, ties to even, and overflows
  to an infinity.
\<close>

datatype jsnum = NaN | Fin rat | NegZero | Infinity bool

definition roundHalfEven :: "rat \<Rightarrow> int" where
  "roundHalfEven x =
     (let f = \<lfloor>x\<rfloor>; d = x - of_int f in
      if d < 1 / 2 then f
      else if 1 / 2 < d then f + 1
      else if even f then f else f + 1)"

definition pow2 :: "int \<Rightarrow> rat" where
  "pow2 e = (if 0 \<le> e then 2 ^ nat e else 1 / 2 ^ nat (- e))"

function bitLength :: "int \<Rightarrow> int" where
  "bitLength n = (if n \<le> 0 then 0 else 1 + bitLength (n div 2))"
  by pat_completeness auto
termination
  by (relation "measure nat") auto

text \<open>
  The binary exponent of a positive rational \<open>a\<close>: the \<open>e\<close> with
  \<open>2^e \<le> a < 2^(e+1)\<close>. With numerator \<open>p\<close> and denominator \<open>q\<close> it is the
  difference of their bit lengths or one less.
\<close>

definition exponentOf :: "rat \<Rightarrow> int" where
  "exponentOf a =
     (let e = bitLength (fst (quotient_of a)) - bitLength (snd (quotient_of a))
      in if pow2 e \<le> a then e else e - 1)"

definition signedZero :: "bool \<Rightarrow> jsnum" where
  "signedZero s = (if s then NegZero else Fin 0)"

text \<open>
  The double nearest to the number of sign \<open>s\<close> and magnitude \<open>a \<ge> 0\<close>: a
  53-bit significand at the exponent of \<open>a\<close> (not below the exponent -1022 of the
  subnormal numbers), rounded half to even; a magnitude that rounds to \<open>2^1024\<close> or
  more is an infinity, one that rounds to nothing is a zero of the sign.
\<close>

definition signedDouble :: "bool \<Rightarrow> rat \<Rightarrow> jsnum" where
  "signedDouble s a =
     (if a = 0 then signedZero s
      else
        (let e = max (exponentOf a) (- 1022);
             m = roundHalfEven (a / pow2 (e - 52))
         in if 1023 < e \<or> (e = 1023 \<and> m = 2 ^ 53) then Infinity s
            else if m = 0 then signedZero s
            else Fin ((if s then - 1 else 1) * (of_int m * pow2 (e - 52)))))"

definition roundDouble :: "rat \<Rightarrow> jsnum" where
  "roundDouble x = signedDouble (x < 0) \<bar>x\<bar>"

definition numOfNat :: "nat \<Rightarrow> jsnum" where
  "numOfNat n = roundDouble (of_int (int n))"

definition digitOf :: "nat \<Rightarrow> char \<Rightarrow> nat option" where
  "digitOf radix c =
     (let n = (of_char c :: nat);
          d = (if 48 \<le> n \<and> n \<le> 57 then Some (n - 48)
               else if 97 \<le> n \<and> n \<le> 122 then Some (n - 87)
               else if 65 \<le> n \<and> n \<le> 90 then Some (n - 55)
               else None)
      in case d of None \<Rightarrow> None | Some v \<Rightarrow> if v < radix then Some v else None)"

definition isDigitOf :: "nat \<Rightarrow> char \<Rightarrow> bool" where
  "isDigitOf radix c = (digitOf radix c \<noteq> None)"

definition digitsValue :: "nat \<Rightarrow> string \<Rightarrow> int" where
  "digitsValue radix ds = foldl (\<lambda>a c. a * int radix + int (the (digitOf radix c))) 0 ds"

text \<open>
  \<open>parseInt(s)\<close>: leading white space is skipped, a sign is read, a prefix \<open>0x\<close>
  selects radix 16, and the longest run of digits is the value, rounded to a double; no
  digit at all gives NaN, and a negative sign on the value zero gives the negative zero.
  An absent parameter is the value \<open>undefined\<close>, which \<open>parseInt\<close> reads as the
  string \<open>undefined\<close>: NaN.
\<close>

definition hasPrefix :: "string \<Rightarrow> string \<Rightarrow> bool" where
  "hasPrefix p s = (take (length p) s = p)"

definition parseInt :: "string \<Rightarrow> jsnum" where
  "parseInt s =
     (let t = dropWhile isWhiteSpace s;
          negative = hasPrefix ''-'' t;
          u = (if hasPrefix ''-'' t \<or> hasPrefix ''+'' t then drop 1 t else t);
          hex = (hasPrefix ''0x'' u \<or> hasPrefix ''0X'' u);
          radix = (if hex then 16 else 10);
          w = (if hex then drop 2 u else u);
          ds = takeWhile (isDigitOf radix) w
      in if ds = [] then NaN
         else signedDouble negative (of_int (digitsValue radix ds)))"

definition parseIntParam :: "string option \<Rightarrow> jsnum" where
  "parseIntParam v = (case v of None \<Rightarrow> NaN | Some s \<Rightarrow> parseInt s)"

text \<open>\<open>parseInt(v) || d\<close>: NaN and the two zeros are falsy and give \<open>d\<close>.\<close>

definition orDefault :: "jsnum \<Rightarrow> jsnum \<Rightarrow> jsnum" where
  "orDefault v d = (if v = NaN \<or> v = Fin 0 \<or> v = NegZero then d else v)"

text \<open>
  The conversion of a string to a number (the grammar of numeric string literals): the
  trimmed string is empty (zero), a binary, octal or hexadecimal integer without sign, or a
  signed decimal literal with optional fraction and exponent, or a signed \<open>Infinity\<close>;
  anything else is NaN. The value of a literal is rounded to a double.
\<close>

definition allDigits :: "nat \<Rightarrow> string \<Rightarrow> bool" where
  "allDigits radix s = (s \<noteq> [] \<and> list_all (isDigitOf radix) s)"

definition pow10 :: "int \<Rightarrow> rat" where
  "pow10 e = (if 0 \<le> e then 10 ^ nat e else 1 / 10 ^ nat (- e))"

definition exponentPart :: "string \<Rightarrow> int option" where
  "exponentPart s =
     (if s = [] then Some 0
      else if hasPrefix ''e'' s \<or> hasPrefix ''E'' s then
        (let r = drop 1 s in
         if hasPrefix ''+'' r then
           (if allDigits 10 (drop 1 r) then Some (digitsValue 10 (drop 1 r)) else None)
         else if hasPrefix ''-'' r then
           (if allDigits 10 (drop 1 r) then Some (- digitsValue 10 (drop 1 r)) else None)
         else if allDigits 10 r then Some (digitsValue 10 r) else None)
      else None)"

definition unsignedDecimal :: "string \<Rightarrow> rat option" where
  "unsignedDecimal s =
     (let ip = takeWhile (isDigitOf 10) s;
          r1 = dropWhile (isDigitOf 10) s;
          fp = (if hasPrefix ''.'' r1 then takeWhile (isDigitOf 10) (drop 1 r1) else []);
          r2 = (if hasPrefix ''.'' r1 then dropWhile (isDigitOf 10) (drop 1 r1) else r1)
      in if ip = [] \<and> fp = [] then None
         else (case exponentPart r2 of
                 None \<Rightarrow> None
               | Some e \<Rightarrow> Some (of_int (digitsValue 10 (ip @ fp)) * pow10 (e - int (length fp)))))"

definition strDecimalLiteral :: "string \<Rightarrow> jsnum" where
  "strDecimalLiteral t =
     (let negative = hasPrefix ''-'' t;
          u = (if hasPrefix ''-'' t \<or> hasPrefix ''+'' t then drop 1 t else t)
      in if u = ''Infinity'' then Infinity negative
         else (case unsignedDecimal u of
                 None \<Rightarrow> NaN
               | Some v \<Rightarrow> signedDouble negative v))"

definition nonDecimal :: "nat \<Rightarrow> string \<Rightarrow> jsnum" where
  "nonDecimal radix ds =
     (if allDigits radix ds then signedDouble False (of_int (digitsValue radix ds)) else NaN)"

definition toNumber :: "string \<Rightarrow> jsnum" where
  "toNumber s =
     (let t = trim s in
      if t = [] then Fin 0
      else if hasPrefix ''0x'' t \<or> hasPrefix ''0X'' t then nonDecimal 16 (drop 2 t)
      else if hasPrefix ''0o'' t \<or> hasPrefix ''0O'' t then nonDecimal 8 (drop 2 t)
      else if hasPrefix ''0b'' t \<or> hasPrefix ''0B'' t then nonDecimal 2 (drop 2 t)
      else strDecimalLiteral t)"

definition isNaN :: "string \<Rightarrow> bool" where
  "isNaN s = (toNumber s = NaN)"

text \<open>
  Subtraction, multiplication, division, \<open>Math.ceil\<close> and \<open><\<close> on numbers, with
  the cases of IEEE arithmetic for NaN, the infinities and the signed zeros; the exact
  result of an operation on finite numbers is rounded to a double.
\<close>

definition negative :: "jsnum \<Rightarrow> bool" where
  "negative a = (case a of NaN \<Rightarrow> False | Fin x \<Rightarrow> x < 0 | NegZero \<Rightarrow> True | Infinity s \<Rightarrow> s)"

definition magnitude :: "jsnum \<Rightarrow> rat" where
  "magnitude a = (case a of Fin x \<Rightarrow> \<bar>x\<bar> | _ \<Rightarrow> 0)"

definition valueOf :: "jsnum \<Rightarrow> rat" where
  "valueOf a = (case a of Fin x \<Rightarrow> x | _ \<Rightarrow> 0)"

definition isInf :: "jsnum \<Rightarrow> bool" where
  "isInf a = (case a of Infinity _ \<Rightarrow> True | _ \<Rightarrow> False)"

definition jsSub :: "jsnum \<Rightarrow> jsnum \<Rightarrow> jsnum" where
  "jsSub a b =
     (if a = NaN \<or> b = NaN then NaN
      else if isInf a then (if isInf b \<and> negative a = negative b then NaN else a)
      else if isInf b then Infinity (\<not> negative b)
      else if valueOf a = valueOf b then signedZero (a = NegZero \<and> b = Fin 0)
      else roundDouble (valueOf a - valueOf b))"

definition jsMul :: "jsnum \<Rightarrow> jsnum \<Rightarrow> jsnum" where
  "jsMul a b =
     (if a = NaN \<or> b = NaN then NaN
      else if isInf a \<or> isInf b then
        (if (\<not> isInf a \<and> magnitude a = 0) \<or> (\<not> isInf b \<and> magnitude b = 0) then NaN
         else Infinity (negative a \<noteq> negative b))
      else signedDouble (negative a \<noteq> negative b) (magnitude a * magnitude b))"

definition jsDiv :: "jsnum \<Rightarrow> jsnum \<Rightarrow> jsnum" where
  "jsDiv a b =
     (if a = NaN \<or> b = NaN then NaN
      else if isInf a then (if isInf b then NaN else Infinity (negative a \<noteq> negative b))
      else if isInf b then signedZero (negative a \<noteq> negative b)
      else if magnitude b = 0 then
        (if magnitude a = 0 then NaN else Infinity (negative a \<noteq> negative b))
      else signedDouble (negative a \<noteq> negative b) (magnitude a / magnitude b))"

definition jsCeil :: "jsnum \<Rightarrow> jsnum" where
  "jsCeil a =
     (case a of
        Fin x \<Rightarrow> if \<lceil>x\<rceil> = 0 \<and> x < 0 then NegZero else Fin (of_int \<lceil>x\<rceil>)
      | _ \<Rightarrow> a)"

definition jsLess :: "jsnum \<Rightarrow> jsnum \<Rightarrow> bool" where
  "jsLess a b =
     (if a = NaN \<or> b = NaN then False
      else if isInf a then (negative a \<and> \<not> (isInf b \<and> negative b))
      else if isInf b then \<not> negative b
      else valueOf a < valueOf b)"

section \<open>Queries against the collection\<close>

text \<open>
  The filter object the read handlers build, one optional clause per key: \<open>$text\<close>
  (\<open>$search\<close>), \<open>ingredients\<close> (\<open>$regex\<close> with option \<open>i\<close>), \<open>difficulty\<close>
  (equality), \<open>tags\<close> (\<open>$in\<close>), \<open>cookingTime\<close> (\<open>$lte\<close>) and \<open>servings\<close>
  (\<open>$gte\<close>). The bound of a range clause is the result of \<open>parseInt\<close>, a number
  that may be NaN.
\<close>

record mquery =
  q_text :: "string option"
  q_ingredients :: "string option"
  q_difficulty :: "string option"
  q_tags :: "string list option"
  q_cookingTime :: "jsnum option"
  q_servings :: "jsnum option"

definition emptyQuery :: mquery where
  "emptyQuery = \<lparr>q_text = None, q_ingredients = None, q_difficulty = None, q_tags = None,
     q_cookingTime = None, q_servings = None\<rparr>"

text \<open>
  The text index and the regular expressions belong to the store, not to the repository:
  they are parameters of the model. \<open>regexTest p\<close> is the test of the pattern \<open>p\<close>
  (case-insensitive), or \<open>None\<close> when \<open>p\<close> is no regular expression.
\<close>

record engine =
  textMatch :: "string \<Rightarrow> recipe \<Rightarrow> bool"
  textScore :: "string \<Rightarrow> recipe \<Rightarrow> rat"
  regexTest :: "string \<Rightarrow> (string \<Rightarrow> bool) option"

datatype sortOptions = CreatedAtDesc | TextScoreCreatedAtDesc

text \<open>
  A stored integer against the bound of a range clause.
\<close>

definition lteBound :: "int \<Rightarrow> jsnum \<Rightarrow> bool" where
  "lteBound c b =
     (case b of
        NaN \<Rightarrow> False
      | Fin x \<Rightarrow> of_int c \<le> x
      | NegZero \<Rightarrow> c \<le> 0
      | Infinity s \<Rightarrow> \<not> s)"

definition gteBound :: "int \<Rightarrow> jsnum \<Rightarrow> bool" where
  "gteBound c b =
     (case b of
        NaN \<Rightarrow> False
      | Fin x \<Rightarrow> x \<le> of_int c
      | NegZero \<Rightarrow> 0 \<le> c
      | Infinity s \<Rightarrow> s)"

text \<open>
  A document matches when every clause present holds. An array field matches a clause when
  one of its elements does, and a range clause holds of no document whose field is unset.
  The store casts the values of a clause by the schema of the path, and the setter
  \<open>trim\<close> of the tags path applies to every value of \<open>$in\<close>.
\<close>

definition matches :: "engine \<Rightarrow> mquery \<Rightarrow> recipe \<Rightarrow> bool" where
  "matches eng flt r =
     ((case q_text flt of None \<Rightarrow> True | Some s \<Rightarrow> textMatch eng s r) \<and>
      (case q_ingredients flt of
         None \<Rightarrow> True
       | Some p \<Rightarrow> (case regexTest eng p of
                     None \<Rightarrow> False
                   | Some test \<Rightarrow> list_ex test (ingredients r))) \<and>
      (case q_difficulty flt of None \<Rightarrow> True | Some d \<Rightarrow> difficulty r = d) \<and>
      (case q_tags flt of
         None \<Rightarrow> True
       | Some ts \<Rightarrow> list_ex (\<lambda>t. t \<in> set (map trim ts)) (tags r)) \<and>
      (case q_cookingTime flt of
         None \<Rightarrow> True
       | Some b \<Rightarrow> (case cookingTime r of None \<Rightarrow> False | Some c \<Rightarrow> lteBound c b)) \<and>
      (case q_servings flt of
         None \<Rightarrow> True
       | Some b \<Rightarrow> (case servings r of None \<Rightarrow> False | Some c \<Rightarrow> gteBound c b)))"

text \<open>
  The store fails on a pattern that is no regular expression, on a range bound that is NaN
  (the cast of the bound to the number type of the path fails) and on a sort by text score
  without a text clause.
\<close>

definition rejected :: "engine \<Rightarrow> mquery \<Rightarrow> sortOptions \<Rightarrow> bool" where
  "rejected eng flt so =
     ((case q_ingredients flt of None \<Rightarrow> False | Some p \<Rightarrow> regexTest eng p = None) \<or>
      q_cookingTime flt = Some NaN \<or> q_servings flt = Some NaN \<or>
      (so = TextScoreCreatedAtDesc \<and> q_text flt = None))"

text \<open>
  The two sort orders of the handlers: creation time descending, and text score descending
  with creation time descending among equal scores. Documents equal under the order keep
  the order of the collection.
\<close>

definition sortDocs :: "engine \<Rightarrow> mquery \<Rightarrow> sortOptions \<Rightarrow> recipe list \<Rightarrow> recipe list" where
  "sortDocs eng flt so rs =
     (case (so, q_text flt) of
        (TextScoreCreatedAtDesc, Some s) \<Rightarrow>
          sort_key (\<lambda>r. - textScore eng s r) (sort_key (\<lambda>r. - createdAt r) rs)
      | _ \<Rightarrow> sort_key (\<lambda>r. - createdAt r) rs)"

text \<open>
  \<open>find(filter).sort(s).skip(k).limit(l)\<close>. The store serves a window whose skip is a
  non-negative integer and whose limit is an integer: limit zero is no limit, and a
  negative limit is served as its absolute value. The model takes every other window
  (a negative, fractional, infinite or NaN skip, a NaN limit) as a failure of the call.
\<close>

definition asInteger :: "jsnum \<Rightarrow> int option" where
  "asInteger a =
     (case a of
        Fin x \<Rightarrow> if of_int \<lfloor>x\<rfloor> = x then Some \<lfloor>x\<rfloor> else None
      | NegZero \<Rightarrow> Some 0
      | _ \<Rightarrow> None)"

definition window :: "int \<Rightarrow> int \<Rightarrow> 'a list \<Rightarrow> 'a list" where
  "window k l xs = (if l = 0 then drop (nat k) xs else take (nat \<bar>l\<bar>) (drop (nat k) xs))"

definition find_docs ::
  "engine \<Rightarrow> recipe list \<Rightarrow> mquery \<Rightarrow> sortOptions \<Rightarrow> jsnum \<Rightarrow> jsnum \<Rightarrow> error + recipe list" where
  "find_docs eng docs flt so skip lmt =
     (if rejected eng flt so then Inl Unexpected
      else (case (asInteger skip, asInteger lmt) of
              (Some k, Some l) \<Rightarrow>
                if k < 0 then Inl Unexpected
                else Inr (window k l (sortDocs eng flt so (filter (matches eng flt) docs)))
            | _ \<Rightarrow> Inl Unexpected))"

definition countDocuments :: "engine \<Rightarrow> recipe list \<Rightarrow> mquery \<Rightarrow> error + nat" where
  "countDocuments eng docs flt =
     (if rejected eng flt CreatedAtDesc then Inl Unexpected
      else Inr (length (filter (matches eng flt) docs)))"

section \<open>The list handler (getAllRecipes)\<close>

text \<open>
  \<open>s.split(',')\<close>, and the test \<open>if (v)\<close> on a query parameter: absent and empty are
  falsy. A query parameter is absent or a string.
\<close>

fun splitOn :: "char \<Rightarrow> string \<Rightarrow> string list" where
  "splitOn c [] = [[]]"
| "splitOn c (x # xs) =
     (if x = c then [] # splitOn c xs
      else (case splitOn c xs of [] \<Rightarrow> [[x]] | y # ys \<Rightarrow> (x # y) # ys))"

definition truthy :: "string option \<Rightarrow> string option" where
  "truthy v = (case v of None \<Rightarrow> None | Some s \<Rightarrow> if s = [] then None else Some s)"

record listQuery =
  lq_page :: "string option"
  lq_limit :: "string option"
  lq_difficulty :: "string option"
  lq_tags :: "string option"

record pagination =
  currentPage :: jsnum
  totalPages :: jsnum
  pageLimit :: jsnum
  total :: nat
  hasNext :: bool
  hasPrev :: bool

record listResponse =
  lr_count :: nat
  lr_pagination :: pagination
  lr_data :: "recipe list"

text \<open>
  The handler: page and limit through \<open>parseInt(v) || d\<close>, the skip, the filter, the
  two calls of the store and the pagination block, all in the arithmetic of numbers. A
  failing call of the store is answered with status 500.
\<close>

definition listPage :: "listQuery \<Rightarrow> jsnum" where
  "listPage q = orDefault (parseIntParam (lq_page q)) (Fin 1)"

definition listLimit :: "listQuery \<Rightarrow> jsnum" where
  "listLimit q = orDefault (parseIntParam (lq_limit q)) (Fin 10)"

definition listSkip :: "listQuery \<Rightarrow> jsnum" where
  "listSkip q = jsMul (jsSub (listPage q) (Fin 1)) (listLimit q)"

definition listFilter :: "listQuery \<Rightarrow> mquery" where
  "listFilter q =
     emptyQuery\<lparr>q_difficulty := truthy (lq_difficulty q),
                q_tags := map_option (splitOn CHR '','') (truthy (lq_tags q))\<rparr>"

definition getAllRecipes :: "engine \<Rightarrow> recipe list \<Rightarrow> listQuery \<Rightarrow> error + listResponse" where
  "getAllRecipes eng docs q =
     (case find_docs eng docs (listFilter q) CreatedAtDesc (listSkip q) (listLimit q) of
        Inl e \<Rightarrow> Inl Unexpected
      | Inr recipes \<Rightarrow>
          (case countDocuments eng docs (listFilter q) of
             Inl e \<Rightarrow> Inl Unexpected
           | Inr n \<Rightarrow>
               Inr \<lparr>lr_count = length recipes,
                    lr_pagination =
                      \<lparr>currentPage = listPage q,
                       totalPages = jsCeil (jsDiv (numOfNat n) (listLimit q)),
                       pageLimit = listLimit q,
                       total = n,
                       hasNext =
                         jsLess (listPage q) (jsCeil (jsDiv (numOfNat n) (listLimit q))),
                       hasPrev = jsLess (Fin 1) (listPage q)\<rparr>,
                    lr_data = recipes\<rparr>))"

section \<open>The search handler (searchRecipes)\<close>

text \<open>
  \<open>page\<close> and \<open>limit\<close> default to the numbers 1 and 10 only when the parameter is
  absent (destructuring defaults); otherwise they are the strings of the request, converted
  to numbers by the operators \<open>-\<close>, \<open>*\<close>, \<open>/\<close>, \<open><\<close> and \<open>>\<close> and read by
  \<open>parseInt\<close> for the limit of the window and for the pagination block. In the response,
  \<open>x || null\<close> is \<open>None\<close> for an absent or empty parameter.
\<close>

record searchParams =
  sp_q :: "string option"
  sp_ingredient :: "string option"
  sp_difficulty :: "string option"
  sp_tags :: "string option"
  sp_cookingTimeMax :: "string option"
  sp_servingsMin :: "string option"
  sp_page :: "string option"
  sp_limit :: "string option"

record searchEcho =
  textSearch :: "string option"
  echo_ingredient :: "string option"
  echo_difficulty :: "string option"
  echo_tags :: "string option"
  echo_cookingTimeMax :: "string option"
  echo_servingsMin :: "string option"

record searchResponse =
  sr_count :: nat
  sr_searchQuery :: searchEcho
  sr_pagination :: pagination
  sr_data :: "recipe list"

definition pageNumber :: "searchParams \<Rightarrow> jsnum" where
  "pageNumber p = (case sp_page p of None \<Rightarrow> Fin 1 | Some s \<Rightarrow> toNumber s)"

definition limitNumber :: "searchParams \<Rightarrow> jsnum" where
  "limitNumber p = (case sp_limit p of None \<Rightarrow> Fin 10 | Some s \<Rightarrow> toNumber s)"

definition parsedPage :: "searchParams \<Rightarrow> jsnum" where
  "parsedPage p = (case sp_page p of None \<Rightarrow> Fin 1 | Some s \<Rightarrow> parseInt s)"

definition parsedLimit :: "searchParams \<Rightarrow> jsnum" where
  "parsedLimit p = (case sp_limit p of None \<Rightarrow> Fin 10 | Some s \<Rightarrow> parseInt s)"

definition searchSkip :: "searchParams \<Rightarrow> jsnum" where
  "searchSkip p = jsMul (jsSub (pageNumber p) (Fin 1)) (limitNumber p)"

definition numericBound :: "string option \<Rightarrow> jsnum option" where
  "numericBound v =
     (case truthy v of
        None \<Rightarrow> None
      | Some s \<Rightarrow> if \<not> isNaN s then Some (parseInt s) else None)"

definition searchQuery :: "searchParams \<Rightarrow> mquery" where
  "searchQuery p =
     \<lparr>q_text = truthy (sp_q p),
      q_ingredients = truthy (sp_ingredient p),
      q_difficulty =
        (case truthy (sp_difficulty p) of
           None \<Rightarrow> None
         | Some d \<Rightarrow> if d \<in> set difficultyEnum then Some d else None),
      q_tags =
        map_option (\<lambda>s. map (\<lambda>t. toLowerCase (trim t)) (splitOn CHR '','' s))
          (truthy (sp_tags p)),
      q_cookingTime = numericBound (sp_cookingTimeMax p),
      q_servings = numericBound (sp_servingsMin p)\<rparr>"

definition searchSort :: "searchParams \<Rightarrow> sortOptions" where
  "searchSort p = (case truthy (sp_q p) of None \<Rightarrow> CreatedAtDesc | Some s \<Rightarrow> TextScoreCreatedAtDesc)"

definition searchQueryEcho :: "searchParams \<Rightarrow> searchEcho" where
  "searchQueryEcho p =
     \<lparr>textSearch = truthy (sp_q p),
      echo_ingredient = truthy (sp_ingredient p),
      echo_difficulty = truthy (sp_difficulty p),
      echo_tags = truthy (sp_tags p),
      echo_cookingTimeMax = truthy (sp_cookingTimeMax p),
      echo_servingsMin = truthy (sp_servingsMin p)\<rparr>"

definition searchRecipes :: "engine \<Rightarrow> recipe list \<Rightarrow> searchParams \<Rightarrow> error + searchResponse" where
  "searchRecipes eng docs p =
     (case find_docs eng docs (searchQuery p) (searchSort p)
             (searchSkip p) (parsedLimit p) of
        Inl e \<Rightarrow> Inl Unexpected
      | Inr recipes \<Rightarrow>
          (case countDocuments eng docs (searchQuery p) of
             Inl e \<Rightarrow> Inl Unexpected
           | Inr n \<Rightarrow>
               Inr \<lparr>sr_count = length recipes,
                    sr_searchQuery = searchQueryEcho p,
                    sr_pagination =
                      \<lparr>currentPage = parsedPage p,
                       totalPages = jsCeil (jsDiv (numOfNat n) (limitNumber p)),
                       pageLimit = parsedLimit p,
                       total = n,
                       hasNext =
                         jsLess (pageNumber p) (jsCeil (jsDiv (numOfNat n) (limitNumber p))),
                       hasPrev = jsLess (Fin 1) (pageNumber p)\<rparr>,
                    sr_data = recipes\<rparr>))"

section \<open>The statistics handler (getRecipeStats)\<close>

text \<open>
  The three aggregations. \<open>$group\<close> with \<open>_id: null\<close> yields one group for a
  non-empty collection and none for an empty one; \<open>$avg\<close> is the mean of the values
  that are set and null (\<open>None\<close>) when none is; \<open>$round\<close> keeps null and rounds half
  to even. The order in which \<open>$group\<close> emits its groups is not specified by the store;
  the model emits one group per distinct value, in the order of \<open>remdups\<close>, and the sorts
  keep that order among equal keys. The object built by \<open>reduce\<close> is an association list
  in insertion order.
\<close>

record overview =
  totalRecipes :: nat
  avgCookingTime :: "rat option"
  avgServings :: "rat option"
  difficulties :: "string list option"

record tagStat =
  name :: string
  tagCount :: nat

record statsData =
  stats_overview :: overview
  difficultyBreakdown :: "(string \<times> nat) list"
  topTags :: "tagStat list"

definition avg :: "int list \<Rightarrow> rat option" where
  "avg xs = (if xs = [] then None else Some (of_int (sum_list xs) / of_nat (length xs)))"

definition round1 :: "rat \<Rightarrow> rat" where
  "round1 x = of_int (roundHalfEven (x * 10)) / 10"

definition groupCount :: "string list \<Rightarrow> (string \<times> nat) list" where
  "groupCount xs = map (\<lambda>x. (x, count_list xs x)) (remdups xs)"

definition overviewStage :: "recipe list \<Rightarrow> overview list" where
  "overviewStage docs =
     (if docs = [] then []
      else [\<lparr>totalRecipes = length docs,
             avgCookingTime = map_option round1 (avg (List.map_filter cookingTime docs)),
             avgServings = map_option round1 (avg (List.map_filter servings docs)),
             difficulties = Some (map difficulty docs)\<rparr>])"

definition difficultyStage :: "recipe list \<Rightarrow> (string \<times> nat) list" where
  "difficultyStage docs = sort_key fst (groupCount (map difficulty docs))"

definition tagStage :: "recipe list \<Rightarrow> (string \<times> nat) list" where
  "tagStage docs =
     take 10 (sort_key (\<lambda>g. - int (snd g)) (groupCount (concat (map tags docs))))"

definition getRecipeStats :: "recipe list \<Rightarrow> statsData" where
  "getRecipeStats docs =
     \<lparr>stats_overview =
        (case overviewStage docs of
           [] \<Rightarrow> \<lparr>totalRecipes = 0, avgCookingTime = Some 0, avgServings = Some 0,
                  difficulties = None\<rparr>
         | s # _ \<Rightarrow> s),
      difficultyBreakdown =
        foldl (\<lambda>acc item. AList.update (fst item) (snd item) acc) [] (difficultyStage docs),
      topTags = map (\<lambda>g. \<lparr>name = fst g, tagCount = snd g\<rparr>) (tagStage docs)\<rparr>"

section \<open>Validation errors by field, and example data\<close>

text \<open>The errors a request body collects on one field.\<close>

definition fieldErrors :: "string \<Rightarrow> body \<Rightarrow> verror list" where
  "fieldErrors f b = filter (\<lambda>e. fst e = f) (validateRecipe b)"

definition soup :: body where
  "soup = \<lparr>body_title = Some ''Soup'', body_ingredients = Some [''water'', '' salt ''],
            body_instructions = Some ''Boil the water, add the salt.'',
            body_cookingTime = None, body_servings = Some 4, body_difficulty = None,
            body_tags = None, body_createdAt = None, body_updatedAt = None\<rparr>"


definition pancakes :: recipe where
  "pancakes = \<lparr>rid = 1, title = ''Pancakes'', ingredients = [''flour'', ''milk''],
     instructions = ''Mix everything and fry.'', cookingTime = Some 20, servings = Some 2,
     difficulty = ''easy'', tags = [''breakfast'', ''quick''], createdAt = 1000,
     updatedAt = 1000\<rparr>"


definition broth :: recipe where
  "broth = \<lparr>rid = 2, title = ''Broth'', ingredients = [''water'', ''bones''],
     instructions = ''Simmer the bones in the water.'', cookingTime = None, servings = None,
     difficulty = ''medium'', tags = [''quick'', ''winter''], createdAt = 2000,
     updatedAt = 2000\<rparr>"

definition exampleEngine :: engine where
  "exampleEngine =
     \<lparr>textMatch = (\<lambda>s r. s = title r),
      textScore = (\<lambda>s r. 1),
      regexTest = (\<lambda>p. Some (\<lambda>s. s = p))\<rparr>"

definition listAll :: listQuery where
  "listAll = \<lparr>lq_page = None, lq_limit = None, lq_difficulty = None, lq_tags = None\<rparr>"

text \<open>The documents the filter of a list request selects, in the order of the collection.\<close>

definition listMatching :: "engine \<Rightarrow> recipe list \<Rightarrow> listQuery \<Rightarrow> recipe list" where
  "listMatching eng docs q = filter (matches eng (listFilter q)) docs"

definition searchAll :: searchParams where
  "searchAll = \<lparr>sp_q = None, sp_ingredient = None, sp_difficulty = None, sp_tags = None,
     sp_cookingTimeMax = None, sp_servingsMin = None, sp_page = None, sp_limit = None\<rparr>"

definition looseSearch :: searchParams where
  "looseSearch = searchAll\<lparr>sp_difficulty := Some ''extreme'', sp_tags := Some '' Quick'',
     sp_cookingTimeMax := Some ''abc''\<rparr>"

text \<open>The documents the query of a search request selects, in the order of the search.\<close>

definition searchSorted :: "engine \<Rightarrow> recipe list \<Rightarrow> searchParams \<Rightarrow> recipe list" where
  "searchSorted eng docs p =
     sortDocs eng (searchQuery p) (searchSort p) (filter (matches eng (searchQuery p)) docs)"

text \<open>Every tag instance of the collection, record by record.\<close>

definition allTags :: "recipe list \<Rightarrow> string list" where
  "allTags docs = concat (map tags docs)"

definition feast :: recipe where
  "feast = \<lparr>rid = 3, title = ''Feast'', ingredients = [''everything''],
     instructions = ''Cook all of it, slowly.'', cookingTime = Some 240, servings = Some 12,
     difficulty = ''hard'',
     tags = [''a'', ''b'', ''c'', ''d'', ''e'', ''f'', ''g'', ''h'', ''i'', ''j'', ''quick''],
     createdAt = 3000, updatedAt = 3000\<rparr>"

section \<open>Properties of the string operations\<close>








lemma trim_examples:
  "trim ''Soup'' = ''Soup''" "trim ''ab'' = ''ab''" "trim ''  '' = []"
  "trim ''salt'' = ''salt''" "trim ''water'' = ''water''" "trim '' salt '' = ''salt''"
  "trim ''Boil the water, add the salt.'' = ''Boil the water, add the salt.''"
  by code_simp+

section \<open>Properties of the validation\<close>

lemma validate_title_Nil:
  "validate_title v = [] \<longleftrightarrow>
     (\<exists>t. v = Some t \<and> 3 \<le> length (trim t) \<and> length (trim t) \<le> 100)"
  by (cases v) (auto simp: validate_title_def trimField_def isLength_def Let_def)







lemma field_validate_title:
  "filter (\<lambda>e. fst e = f) (validate_title v) = (if f = ''title'' then validate_title v else [])"
  by (simp add: validate_title_def Let_def)

lemma field_validate_ingredients:
  "f \<noteq> ''ingredients'' \<Longrightarrow> filter (\<lambda>e. fst e = f) (validate_ingredients v) = []"
  by (cases v) (auto simp: validate_ingredients_def)

lemma field_validate_instructions:
  "f \<noteq> ''instructions'' \<Longrightarrow> filter (\<lambda>e. fst e = f) (validate_instructions v) = []"
  by (auto simp: validate_instructions_def Let_def)

lemma field_validate_cookingTime:
  "f \<noteq> ''cookingTime'' \<Longrightarrow> filter (\<lambda>e. fst e = f) (validate_cookingTime v) = []"
  by (cases v) (auto simp: validate_cookingTime_def)

lemma field_validate_servings:
  "f \<noteq> ''servings'' \<Longrightarrow> filter (\<lambda>e. fst e = f) (validate_servings v) = []"
  by (cases v) (auto simp: validate_servings_def)

lemma field_validate_difficulty:
  "f \<noteq> ''difficulty'' \<Longrightarrow> filter (\<lambda>e. fst e = f) (validate_difficulty v) = []"
  by (cases v) (auto simp: validate_difficulty_def)

lemma title_errors: "fieldErrors ''title'' b = validate_title (body_title b)"
  by (simp add: fieldErrors_def validateRecipe_def validate_tags_def field_validate_title
      field_validate_ingredients field_validate_instructions field_validate_cookingTime
      field_validate_servings field_validate_difficulty)


text \<open>
  C7 (as amended). A create or update request is accepted with respect to the title field
  exactly when the title is present and its trimmed value has between 3 and 100 characters.
\<close>

theorem title_accepted_iff:
  "fieldErrors ''title'' b = [] \<longleftrightarrow>
     (\<exists>t. body_title b = Some t \<and> 3 \<le> length (trim t) \<and> length (trim t) \<le> 100)"
  by (simp only: title_errors validate_title_Nil)

theorem title_accepted_witness:
  "fieldErrors ''title'' soup = [] \<and> body_title soup = Some ''Soup'' \<and>
   length (trim ''Soup'') = 4"
  using title_accepted_iff [of soup] by (simp add: soup_def trim_examples)

theorem title_short_counterexample:
  "1 \<le> length (trim ''ab'') \<and> length (trim ''ab'') \<le> 100 \<and>
   fieldErrors ''title'' (soup\<lparr>body_title := Some ''ab''\<rparr>) =
     [(''title'', Msg ''Title must be between 3 and 100 characters'')] \<and>
   createRecipe [] 1 0 0 (soup\<lparr>body_title := Some ''ab''\<rparr>) =
     (Inl (ValidationFailed [(''title'', Msg ''Title must be between 3 and 100 characters'')]),
      [])"
proof -
  have v: "validateRecipe (soup\<lparr>body_title := Some ''ab''\<rparr>) =
      [(''title'', Msg ''Title must be between 3 and 100 characters'')]"
    by code_simp
  show ?thesis
    by (simp add: v fieldErrors_def createRecipe_def trim_examples)
qed

section \<open>Creating a recipe\<close>












section \<open>Updating a recipe\<close>



lemma updateRecipe_invalid:
  "validateRecipe b \<noteq> [] \<Longrightarrow>
     updateRecipe docs ident now b = (Inl (ValidationFailed (validateRecipe b)), docs)"
  by (simp add: updateRecipe_def Let_def)

subsection \<open>The time stamps of a reachable collection\<close>
















lemma pancakes_found: "findById 1 [pancakes] = Some pancakes"
  by code_simp


section \<open>Properties of the statistics\<close>

lemma groupCount_snd: "g \<in> set (groupCount xs) \<Longrightarrow> snd g = count_list xs (fst g)"
  by (auto simp: groupCount_def)

lemma groupCount_fst: "fst ` set (groupCount xs) = set xs"
  by (force simp: groupCount_def)

lemma groupCount_distinct: "distinct (map fst (groupCount xs))"
  by (simp add: groupCount_def o_def)

lemma tagStage_subset:
  "set (tagStage docs) \<subseteq> set (groupCount (concat (map tags docs)))"
  unfolding tagStage_def using set_take_subset [of 10] by fastforce

lemma tagStage_length: "length (tagStage docs) \<le> 10"
  by (simp add: tagStage_def)

lemma tagStage_sorted: "sorted_wrt (\<lambda>g h. snd h \<le> snd g) (tagStage docs)"
proof -
  let ?k = "\<lambda>g :: string \<times> nat. - int (snd g)"
  have "sorted (map ?k (sort_key ?k (groupCount (concat (map tags docs)))))"
    by (rule sorted_sort_key)
  then have "sorted_wrt (\<lambda>g h. ?k g \<le> ?k h) (sort_key ?k (groupCount (concat (map tags docs))))"
    by (simp add: sorted_wrt_map)
  then have "sorted_wrt (\<lambda>g h. ?k g \<le> ?k h) (tagStage docs)"
    unfolding tagStage_def by (rule sorted_wrt_take)
  then show ?thesis by simp
qed

lemma tagStage_counts:
  "map snd (tagStage docs) =
     map (\<lambda>g. count_list (concat (map tags docs)) (fst g)) (tagStage docs)"
proof (rule map_cong [OF refl])
  fix g assume "g \<in> set (tagStage docs)"
  then have "g \<in> set (groupCount (concat (map tags docs)))"
    using tagStage_subset by blast
  then show "snd g = count_list (concat (map tags docs)) (fst g)"
    by (rule groupCount_snd)
qed

lemma tagStage_distinct: "distinct (map fst (tagStage docs))"
proof -
  let ?k = "\<lambda>g :: string \<times> nat. - int (snd g)"
  let ?gs = "groupCount (concat (map tags docs))"
  have d: "distinct (map fst ?gs)" by (rule groupCount_distinct)
  then have "distinct ?gs" and "inj_on fst (set ?gs)"
    by (simp_all add: distinct_map)
  then
  have "distinct (map fst (sort_key ?k ?gs))"
    by (simp add: distinct_map)
  then have "distinct (take 10 (map fst (sort_key ?k ?gs)))"
    by (rule distinct_take)
  then show ?thesis
    by (simp add: tagStage_def take_map)
qed

lemma tagStage_eq:
  "tagStage docs = take 10 (sort_key (\<lambda>g. - int (snd g)) (groupCount (concat (map tags docs))))"
  by (simp add: tagStage_def)

lemma groupCount_length: "length (groupCount xs) = card (set xs)"
  by (simp add: groupCount_def length_remdups_card_conv)

lemma tagStage_size: "length (tagStage docs) = min 10 (card (set (concat (map tags docs))))"
  by (simp add: tagStage_eq groupCount_length min.commute)

lemma tagStage_names_subset: "fst ` set (tagStage docs) \<subseteq> set (concat (map tags docs))"
  using tagStage_subset [of docs] groupCount_fst [of "concat (map tags docs)"] by blast

lemma tagStage_all:
  assumes "card (set (concat (map tags docs))) \<le> 10"
  shows "fst ` set (tagStage docs) = set (concat (map tags docs))"
proof -
  from assms have "length (sort_key (\<lambda>g. - int (snd g)) (groupCount (concat (map tags docs)))) \<le> 10"
    by (simp add: groupCount_length)
  then have "tagStage docs = sort_key (\<lambda>g. - int (snd g)) (groupCount (concat (map tags docs)))"
    by (simp add: tagStage_eq)
  then show ?thesis
    by (simp add: groupCount_fst)
qed

lemma tagStage_omitted:
  assumes "t \<in> set (concat (map tags docs))" and "t \<notin> fst ` set (tagStage docs)"
    and "g \<in> set (tagStage docs)"
  shows "count_list (concat (map tags docs)) t \<le> snd g"
proof -
  let ?zs = "sort_key (\<lambda>g. - int (snd g)) (groupCount (concat (map tags docs)))"
  have s: "sorted_wrt (\<lambda>g h. snd h \<le> snd g) (take 10 ?zs @ drop 10 ?zs)"
  proof -
    have "sorted (map (\<lambda>g. - int (snd g)) ?zs)"
      by (rule sorted_sort_key)
    then show ?thesis
      by (simp add: sorted_wrt_map)
  qed
  from assms(1) have "t \<in> fst ` set (groupCount (concat (map tags docs)))"
    unfolding groupCount_fst .
  then obtain h where h: "h \<in> set (groupCount (concat (map tags docs)))" "fst h = t"
    by blast
  have "set (take 10 ?zs) \<union> set (drop 10 ?zs) = set (take 10 ?zs @ drop 10 ?zs)"
    by (rule set_append [symmetric])
  then have "set (take 10 ?zs) \<union> set (drop 10 ?zs) = set (groupCount (concat (map tags docs)))"
    by simp
  with h(1) have "h \<in> set (take 10 ?zs) \<union> set (drop 10 ?zs)"
    by blast
  moreover from h(2) assms(2) have "h \<notin> set (take 10 ?zs)"
    unfolding tagStage_eq by auto
  ultimately have hd: "h \<in> set (drop 10 ?zs)"
    by blast
  from assms(3) have "g \<in> set (take 10 ?zs)"
    by (simp add: tagStage_eq)
  with s hd have "snd h \<le> snd g"
    unfolding sorted_wrt_append by blast
  moreover from h have "snd h = count_list (concat (map tags docs)) t"
    using groupCount_snd by blast
  ultimately show ?thesis by simp
qed

text \<open>
  C9. For every collection, the top-tags list counts every tag instance of every record:
  the count of an entry is the sum over the records of the number of times the record
  carries the tag. The list names each tag at most once, names only tags of the collection
  and all of them when there are at most 10, has as many entries as there are distinct
  tags but at most 10, and is sorted non-increasing by count; no tag left out has a
  higher count than a tag listed.
\<close>

theorem topTags_counted_bounded_sorted:
  "length (topTags (getRecipeStats docs)) \<le> 10 \<and>
   length (topTags (getRecipeStats docs)) = min 10 (card (set (allTags docs))) \<and>
   sorted_wrt (\<lambda>a b. tagCount b \<le> tagCount a) (topTags (getRecipeStats docs)) \<and>
   distinct (map name (topTags (getRecipeStats docs))) \<and>
   set (map name (topTags (getRecipeStats docs))) \<subseteq> set (allTags docs) \<and>
   (card (set (allTags docs)) \<le> 10 \<longrightarrow>
      set (map name (topTags (getRecipeStats docs))) = set (allTags docs)) \<and>
   map tagCount (topTags (getRecipeStats docs)) =
     map (\<lambda>a. sum_list (map (\<lambda>r. count_list (tags r) (name a)) docs))
       (topTags (getRecipeStats docs)) \<and>
   (\<forall>t \<in> set (allTags docs). t \<notin> set (map name (topTags (getRecipeStats docs))) \<longrightarrow>
      (\<forall>a \<in> set (topTags (getRecipeStats docs)).
         sum_list (map (\<lambda>r. count_list (tags r) t) docs) \<le> tagCount a))"
proof -
  have t: "topTags (getRecipeStats docs) =
      map (\<lambda>g. \<lparr>name = fst g, tagCount = snd g\<rparr>) (tagStage docs)"
    by (simp add: getRecipeStats_def)
  have n: "map name (topTags (getRecipeStats docs)) = map fst (tagStage docs)"
    by (simp add: t o_def)
  have c: "count_list (allTags docs) x =
      sum_list (map (\<lambda>r. count_list (tags r) x) docs)" for x
    by (simp add: allTags_def count_list_concat o_def)
  have 1: "length (topTags (getRecipeStats docs)) \<le> 10"
    unfolding t using tagStage_length by simp
  have 2: "length (topTags (getRecipeStats docs)) = min 10 (card (set (allTags docs)))"
    unfolding t allTags_def using tagStage_size by simp
  have 3: "sorted_wrt (\<lambda>a b. tagCount b \<le> tagCount a) (topTags (getRecipeStats docs))"
    unfolding t using tagStage_sorted by (simp add: sorted_wrt_map)
  have 4: "distinct (map name (topTags (getRecipeStats docs)))"
    unfolding n by (rule tagStage_distinct)
  have 5: "set (map name (topTags (getRecipeStats docs))) \<subseteq> set (allTags docs)"
    unfolding n allTags_def using tagStage_names_subset by simp
  have 6: "card (set (allTags docs)) \<le> 10 \<longrightarrow>
      set (map name (topTags (getRecipeStats docs))) = set (allTags docs)"
    unfolding n allTags_def using tagStage_all by simp
  have 7: "map tagCount (topTags (getRecipeStats docs)) =
      map (\<lambda>a. sum_list (map (\<lambda>r. count_list (tags r) (name a)) docs))
        (topTags (getRecipeStats docs))"
    unfolding t using tagStage_counts [of docs] c by (simp add: o_def allTags_def)
  have 8: "sum_list (map (\<lambda>r. count_list (tags r) x) docs) \<le> tagCount a"
    if "x \<in> set (allTags docs)" "x \<notin> set (map name (topTags (getRecipeStats docs)))"
       "a \<in> set (topTags (getRecipeStats docs))" for x a
  proof -
    from that(3) obtain g where g: "g \<in> set (tagStage docs)" "tagCount a = snd g"
      unfolding t by auto
    from that(2) have "x \<notin> fst ` set (tagStage docs)"
      unfolding n by simp
    with that(1) have "count_list (allTags docs) x \<le> snd g"
      using g(1) unfolding allTags_def by (rule tagStage_omitted)
    then show ?thesis
      by (simp add: c g(2))
  qed
  from 1 2 3 4 5 6 7 8 show ?thesis by blast
qed

lemma topTags_example:
  "topTags (getRecipeStats [pancakes, broth]) =
     [\<lparr>name = ''quick'', tagCount = 2\<rparr>, \<lparr>name = ''breakfast'', tagCount = 1\<rparr>,
      \<lparr>name = ''winter'', tagCount = 1\<rparr>]"
  by code_simp

lemma topTags_feast:
  "topTags (getRecipeStats [pancakes, broth, feast]) =
     [\<lparr>name = ''quick'', tagCount = 3\<rparr>, \<lparr>name = ''breakfast'', tagCount = 1\<rparr>,
      \<lparr>name = ''winter'', tagCount = 1\<rparr>, \<lparr>name = ''a'', tagCount = 1\<rparr>,
      \<lparr>name = ''b'', tagCount = 1\<rparr>, \<lparr>name = ''c'', tagCount = 1\<rparr>,
      \<lparr>name = ''d'', tagCount = 1\<rparr>, \<lparr>name = ''e'', tagCount = 1\<rparr>,
      \<lparr>name = ''f'', tagCount = 1\<rparr>, \<lparr>name = ''g'', tagCount = 1\<rparr>]"
  by code_simp

lemma allTags_examples:
  "allTags [pancakes, broth] = [''breakfast'', ''quick'', ''quick'', ''winter'']"
  "allTags [pancakes, broth, feast] =
     [''breakfast'', ''quick'', ''quick'', ''winter'',
      ''a'', ''b'', ''c'', ''d'', ''e'', ''f'', ''g'', ''h'', ''i'', ''j'', ''quick'']"
  by code_simp+

theorem topTags_counted_bounded_sorted_witness:
  "card (set (allTags [pancakes, broth])) \<le> 10 \<and>
   set (map name (topTags (getRecipeStats [pancakes, broth]))) =
     {''breakfast'', ''quick'', ''winter''} \<and>
   map tagCount (topTags (getRecipeStats [pancakes, broth])) = [2, 1, 1] \<and>
   ''h'' \<in> set (allTags [pancakes, broth, feast]) \<and>
   ''h'' \<notin> set (map name (topTags (getRecipeStats [pancakes, broth, feast]))) \<and>
   length (topTags (getRecipeStats [pancakes, broth, feast])) = 10 \<and>
   \<lparr>name = ''g'', tagCount = 1\<rparr> \<in> set (topTags (getRecipeStats [pancakes, broth, feast])) \<and>
   sum_list (map (\<lambda>r. count_list (tags r) ''h'') [pancakes, broth, feast]) \<le> 1"
proof -
  have k: "card (set (allTags [pancakes, broth])) \<le> 10"
    unfolding allTags_examples by (simp add: card_insert_if)
  have h: "''h'' \<in> set (allTags [pancakes, broth, feast])"
    unfolding allTags_examples by simp
  have o: "''h'' \<notin> set (map name (topTags (getRecipeStats [pancakes, broth, feast])))"
    unfolding topTags_feast by simp
  from topTags_counted_bounded_sorted [of "[pancakes, broth]"] k
  have "set (map name (topTags (getRecipeStats [pancakes, broth]))) =
      set (allTags [pancakes, broth])"
    by blast
  then have 1: "set (map name (topTags (getRecipeStats [pancakes, broth]))) =
      {''breakfast'', ''quick'', ''winter''}"
    unfolding allTags_examples by auto
  have 2: "map tagCount (topTags (getRecipeStats [pancakes, broth])) = [2, 1, 1]"
    unfolding topTags_example by simp
  have g: "\<lparr>name = ''g'', tagCount = 1\<rparr> \<in>
      set (topTags (getRecipeStats [pancakes, broth, feast]))"
    unfolding topTags_feast by simp
  from topTags_counted_bounded_sorted [of "[pancakes, broth, feast]"] h o g
  have "sum_list (map (\<lambda>r. count_list (tags r) ''h'') [pancakes, broth, feast]) \<le>
      tagCount \<lparr>name = ''g'', tagCount = 1\<rparr>"
    by blast
  then have 3: "sum_list (map (\<lambda>r. count_list (tags r) ''h'') [pancakes, broth, feast]) \<le> 1"
    by simp
  have 4: "length (topTags (getRecipeStats [pancakes, broth, feast])) = 10"
    unfolding topTags_feast by simp
  from k 1 2 h o g 3 4 show ?thesis by blast
qed

text \<open>
  C8. On the empty collection the statistics report totalRecipes 0, the averages 0 (a
  number, not null), an empty difficulty breakdown and an empty top-tags list.
\<close>

theorem stats_empty_collection:
  "getRecipeStats [] =
     \<lparr>stats_overview =
        \<lparr>totalRecipes = 0, avgCookingTime = Some 0, avgServings = Some 0,
         difficulties = None\<rparr>,
      difficultyBreakdown = [],
      topTags = []\<rparr>"
  by (simp add: getRecipeStats_def overviewStage_def difficultyStage_def tagStage_def
      groupCount_def)

lemma avg_None: "avg xs = None \<longleftrightarrow> xs = []"
  by (simp add: avg_def)

lemma map_filter_Nil: "List.map_filter f xs = [] \<longleftrightarrow> list_all (\<lambda>x. f x = None) xs"
  by (induction xs) (auto simp: List.map_filter_def)

lemma overview_nonempty:
  "docs \<noteq> [] \<Longrightarrow>
     stats_overview (getRecipeStats docs) =
       \<lparr>totalRecipes = length docs,
        avgCookingTime = map_option round1 (avg (List.map_filter cookingTime docs)),
        avgServings = map_option round1 (avg (List.map_filter servings docs)),
        difficulties = Some (map difficulty docs)\<rparr>"
  by (simp add: getRecipeStats_def overviewStage_def)

text \<open>
  C10. On a non-empty collection the overview counts the records, and an average is null
  exactly when no record has the field set: the zero fallback of the empty collection does
  not apply.
\<close>

theorem averages_null_when_unset:
  assumes "docs \<noteq> []"
  shows "totalRecipes (stats_overview (getRecipeStats docs)) = length docs \<and>
         (avgCookingTime (stats_overview (getRecipeStats docs)) = None \<longleftrightarrow>
            list_all (\<lambda>r. cookingTime r = None) docs) \<and>
         (avgServings (stats_overview (getRecipeStats docs)) = None \<longleftrightarrow>
            list_all (\<lambda>r. servings r = None) docs)"
  by (simp add: overview_nonempty [OF assms] avg_None map_filter_Nil)

theorem averages_null_when_unset_witness:
  "[broth] \<noteq> [] \<and> list_all (\<lambda>r. cookingTime r = None) [broth] \<and>
   totalRecipes (stats_overview (getRecipeStats [broth])) = 1 \<and>
   avgCookingTime (stats_overview (getRecipeStats [broth])) = None \<and>
   avgServings (stats_overview (getRecipeStats [broth])) = None"
  using averages_null_when_unset [of "[broth]"] by (simp add: broth_def)

section \<open>The pagination block of the list handler\<close>

lemma orDefault_proper:
  assumes "d \<noteq> NaN" and "d \<noteq> Fin 0" and "d \<noteq> NegZero"
  shows "orDefault v d \<noteq> NaN \<and> orDefault v d \<noteq> Fin 0 \<and> orDefault v d \<noteq> NegZero"
  using assms by (simp add: orDefault_def)

lemma listLimit_proper:
  "listLimit q \<noteq> NaN" "listLimit q \<noteq> Fin 0" "listLimit q \<noteq> NegZero"
  using orDefault_proper [of "Fin 10" "parseIntParam (lq_limit q)"]
  by (simp_all add: listLimit_def)

lemma listPage_proper:
  "listPage q \<noteq> NaN" "listPage q \<noteq> Fin 0" "listPage q \<noteq> NegZero"
  using orDefault_proper [of "Fin 1" "parseIntParam (lq_page q)"]
  by (simp_all add: listPage_def)

lemma numOfNat_zero: "numOfNat 0 = Fin 0"
  by (simp add: numOfNat_def roundDouble_def signedDouble_def signedZero_def)

lemma signedDouble_zero: "signedDouble s 0 = signedZero s"
  by (simp add: signedDouble_def)

lemma jsCeil_signedZero: "jsCeil (signedZero s) = signedZero s"
  by (simp add: jsCeil_def signedZero_def)

lemma zero_pages:
  assumes "asInteger b = Some l" and "b \<noteq> Fin 0" and "b \<noteq> NegZero"
  shows "jsCeil (jsDiv (numOfNat 0) b) = signedZero (negative b)"
proof -
  from assms obtain x where b: "b = Fin x" "x \<noteq> 0"
    by (cases b) (auto simp: asInteger_def)
  then have "jsDiv (numOfNat 0) b = signedZero (negative b)"
    by (simp add: numOfNat_zero jsDiv_def isInf_def magnitude_def negative_def
        signedDouble_zero)
  then show ?thesis
    by (simp add: jsCeil_signedZero)
qed

lemma jsLess_signedZero: "jsLess a (signedZero s) = jsLess a (Fin 0)"
  by (simp add: jsLess_def signedZero_def isInf_def valueOf_def negative_def)

lemma jsLess_zero_one: "a \<noteq> NaN \<Longrightarrow> jsLess a (Fin 0) \<Longrightarrow> jsLess a (Fin 1)"
  by (cases a) (auto simp: jsLess_def isInf_def valueOf_def negative_def)

lemma listFilter_accepted: "\<not> rejected eng (listFilter q) CreatedAtDesc"
  by (simp add: rejected_def listFilter_def emptyQuery_def)

lemma sortDocs_CreatedAtDesc:
  "sortDocs eng flt CreatedAtDesc rs = sort_key (\<lambda>r. - createdAt r) rs"
  by (simp add: sortDocs_def)

lemma getAllRecipes_answered:
  assumes "asInteger (listSkip q) = Some k" and "0 \<le> k" and "asInteger (listLimit q) = Some l"
  shows "getAllRecipes eng docs q =
     Inr \<lparr>lr_count =
         length (window k l (sort_key (\<lambda>r. - createdAt r) (listMatching eng docs q))),
       lr_pagination =
         \<lparr>currentPage = listPage q,
          totalPages =
            jsCeil (jsDiv (numOfNat (length (listMatching eng docs q))) (listLimit q)),
          pageLimit = listLimit q,
          total = length (listMatching eng docs q),
          hasNext =
            jsLess (listPage q)
              (jsCeil (jsDiv (numOfNat (length (listMatching eng docs q))) (listLimit q))),
          hasPrev = jsLess (Fin 1) (listPage q)\<rparr>,
       lr_data = window k l (sort_key (\<lambda>r. - createdAt r) (listMatching eng docs q))\<rparr>"
  using assms
  by (simp add: getAllRecipes_def find_docs_def countDocuments_def listFilter_accepted
      sortDocs_CreatedAtDesc listMatching_def)

lemma getAllRecipes_failed:
  assumes "asInteger (listSkip q) = None \<or> asInteger (listLimit q) = None \<or>
    (\<exists>k. asInteger (listSkip q) = Some k \<and> k < 0)"
  shows "getAllRecipes eng docs q = Inl Unexpected"
  using assms
  by (auto simp: getAllRecipes_def find_docs_def listFilter_accepted split: option.splits)

lemma getAllRecipes_Inr:
  assumes "getAllRecipes eng docs q = Inr resp"
  obtains k l where
    "asInteger (listSkip q) = Some k" "0 \<le> k" "asInteger (listLimit q) = Some l"
    "resp =
       \<lparr>lr_count =
         length (window k l (sort_key (\<lambda>r. - createdAt r) (listMatching eng docs q))),
       lr_pagination =
         \<lparr>currentPage = listPage q,
          totalPages =
            jsCeil (jsDiv (numOfNat (length (listMatching eng docs q))) (listLimit q)),
          pageLimit = listLimit q,
          total = length (listMatching eng docs q),
          hasNext =
            jsLess (listPage q)
              (jsCeil (jsDiv (numOfNat (length (listMatching eng docs q))) (listLimit q))),
          hasPrev = jsLess (Fin 1) (listPage q)\<rparr>,
       lr_data = window k l (sort_key (\<lambda>r. - createdAt r) (listMatching eng docs q))\<rparr>"
proof -
  from assms obtain k where k: "asInteger (listSkip q) = Some k"
    using getAllRecipes_failed [of q eng docs] by (cases "asInteger (listSkip q)") auto
  from assms obtain l where l: "asInteger (listLimit q) = Some l"
    using getAllRecipes_failed [of q eng docs] by (cases "asInteger (listLimit q)") auto
  from assms k have k0: "0 \<le> k"
    using getAllRecipes_failed [of q eng docs] by (cases "k < 0") auto
  from assms have "resp =
       \<lparr>lr_count =
         length (window k l (sort_key (\<lambda>r. - createdAt r) (listMatching eng docs q))),
       lr_pagination =
         \<lparr>currentPage = listPage q,
          totalPages =
            jsCeil (jsDiv (numOfNat (length (listMatching eng docs q))) (listLimit q)),
          pageLimit = listLimit q,
          total = length (listMatching eng docs q),
          hasNext =
            jsLess (listPage q)
              (jsCeil (jsDiv (numOfNat (length (listMatching eng docs q))) (listLimit q))),
          hasPrev = jsLess (Fin 1) (listPage q)\<rparr>,
       lr_data = window k l (sort_key (\<lambda>r. - createdAt r) (listMatching eng docs q))\<rparr>"
    unfolding getAllRecipes_answered [OF k k0 l] by simp
  with k k0 l show thesis by (rule that)
qed

text \<open>
  C6 (as amended). In every answer of the list operation, hasNext is (page < totalPages)
  and hasPrev is (page > 1), in the comparison of numbers; the page is a number. When the
  matching total is 0, totalPages is zero (the negative zero under a negative limit; the
  response writes both as 0) and hasNext is false for every page from 1 on, while hasPrev
  is still (page > 1): it is true for a requested page above 1.
\<close>

theorem list_pagination_flags:
  assumes "getAllRecipes eng docs q = Inr resp"
  shows "currentPage (lr_pagination resp) = listPage q \<and>
         currentPage (lr_pagination resp) \<noteq> NaN \<and>
         total (lr_pagination resp) = length (listMatching eng docs q) \<and>
         totalPages (lr_pagination resp) =
           jsCeil (jsDiv (numOfNat (total (lr_pagination resp)))
             (pageLimit (lr_pagination resp))) \<and>
         hasNext (lr_pagination resp) =
           jsLess (currentPage (lr_pagination resp)) (totalPages (lr_pagination resp)) \<and>
         hasPrev (lr_pagination resp) = jsLess (Fin 1) (currentPage (lr_pagination resp)) \<and>
         (total (lr_pagination resp) = 0 \<longrightarrow>
            (totalPages (lr_pagination resp) = Fin 0 \<or>
             totalPages (lr_pagination resp) = NegZero) \<and>
            (\<not> jsLess (currentPage (lr_pagination resp)) (Fin 1) \<longrightarrow>
               \<not> hasNext (lr_pagination resp)))"
proof -
  from assms obtain k l where
    l: "asInteger (listLimit q) = Some l" and
    r: "resp =
       \<lparr>lr_count =
         length (window k l (sort_key (\<lambda>r. - createdAt r) (listMatching eng docs q))),
       lr_pagination =
         \<lparr>currentPage = listPage q,
          totalPages =
            jsCeil (jsDiv (numOfNat (length (listMatching eng docs q))) (listLimit q)),
          pageLimit = listLimit q,
          total = length (listMatching eng docs q),
          hasNext =
            jsLess (listPage q)
              (jsCeil (jsDiv (numOfNat (length (listMatching eng docs q))) (listLimit q))),
          hasPrev = jsLess (Fin 1) (listPage q)\<rparr>,
       lr_data = window k l (sort_key (\<lambda>r. - createdAt r) (listMatching eng docs q))\<rparr>"
    by (rule getAllRecipes_Inr)
  have z: "jsCeil (jsDiv (numOfNat 0) (listLimit q)) = signedZero (negative (listLimit q))"
    using l listLimit_proper(2,3) by (rule zero_pages)
  have 1: "currentPage (lr_pagination resp) = listPage q"
    and 2: "currentPage (lr_pagination resp) \<noteq> NaN"
    and 3: "total (lr_pagination resp) = length (listMatching eng docs q)"
    and 4: "totalPages (lr_pagination resp) =
           jsCeil (jsDiv (numOfNat (total (lr_pagination resp)))
             (pageLimit (lr_pagination resp)))"
    and 5: "hasNext (lr_pagination resp) =
           jsLess (currentPage (lr_pagination resp)) (totalPages (lr_pagination resp))"
    and 6: "hasPrev (lr_pagination resp) = jsLess (Fin 1) (currentPage (lr_pagination resp))"
    and 7: "pageLimit (lr_pagination resp) = listLimit q"
    by (simp_all add: r listPage_proper)
  have 8: "(totalPages (lr_pagination resp) = Fin 0 \<or>
             totalPages (lr_pagination resp) = NegZero) \<and>
            (\<not> jsLess (currentPage (lr_pagination resp)) (Fin 1) \<longrightarrow>
               \<not> hasNext (lr_pagination resp))"
    if t: "total (lr_pagination resp) = 0"
  proof -
    from 4 t 7 z have p: "totalPages (lr_pagination resp) = signedZero (negative (listLimit q))"
      by simp
    then have a: "totalPages (lr_pagination resp) = Fin 0 \<or>
        totalPages (lr_pagination resp) = NegZero"
      by (simp add: signedZero_def)
    from 5 p have "hasNext (lr_pagination resp) =
        jsLess (currentPage (lr_pagination resp)) (Fin 0)"
      by (simp add: jsLess_signedZero)
    with 2 have "hasNext (lr_pagination resp) \<longrightarrow>
        jsLess (currentPage (lr_pagination resp)) (Fin 1)"
      using jsLess_zero_one by blast
    with a show ?thesis by blast
  qed
  from 1 2 3 4 5 6 8 show ?thesis by blast
qed

lemma list_empty_first_page:
  "getAllRecipes exampleEngine [] listAll =
     Inr \<lparr>lr_count = 0,
          lr_pagination = \<lparr>currentPage = Fin 1, totalPages = Fin 0, pageLimit = Fin 10,
                            total = 0, hasNext = False, hasPrev = False\<rparr>,
          lr_data = []\<rparr>"
  by code_simp

theorem list_pagination_flags_witness:
  "\<exists>resp. getAllRecipes exampleEngine [] listAll = Inr resp \<and>
      total (lr_pagination resp) = 0 \<and> currentPage (lr_pagination resp) = Fin 1 \<and>
      \<not> jsLess (currentPage (lr_pagination resp)) (Fin 1) \<and>
      totalPages (lr_pagination resp) = Fin 0 \<and> \<not> hasNext (lr_pagination resp) \<and>
      \<not> hasPrev (lr_pagination resp)"
proof -
  note w = list_pagination_flags [OF list_empty_first_page]
  from w have "total (lr_pagination
      \<lparr>lr_count = 0,
       lr_pagination = \<lparr>currentPage = Fin 1, totalPages = Fin 0, pageLimit = Fin 10,
                         total = 0, hasNext = False, hasPrev = False\<rparr>,
       lr_data = []\<rparr>) = length (listMatching exampleEngine [] listAll)"
    by blast
  moreover have "\<not> jsLess (Fin 1) (Fin 1)"
    by (simp add: jsLess_def isInf_def valueOf_def)
  ultimately show ?thesis
    using list_empty_first_page by simp
qed

theorem list_empty_page5_counterexample:
  "getAllRecipes exampleEngine [] (listAll\<lparr>lq_page := Some ''5''\<rparr>) =
     Inr \<lparr>lr_count = 0,
          lr_pagination = \<lparr>currentPage = Fin 5, totalPages = Fin 0, pageLimit = Fin 10,
                            total = 0, hasNext = False, hasPrev = True\<rparr>,
          lr_data = []\<rparr>"
  by code_simp

section \<open>The echo of the search handler\<close>

lemma truthy_idem: "truthy (truthy v) = truthy v"
  by (cases v) (simp_all add: truthy_def)

lemma rejected_CreatedAtDesc:
  "\<not> rejected eng flt so \<Longrightarrow> \<not> rejected eng flt CreatedAtDesc"
  by (auto simp: rejected_def)

lemma searchRecipes_Inr:
  assumes "searchRecipes eng docs p = Inr resp"
  obtains k l where
    "asInteger (searchSkip p) = Some k" "0 \<le> k" "asInteger (parsedLimit p) = Some l"
    "resp =
       \<lparr>sr_count = length (window k l (searchSorted eng docs p)),
        sr_searchQuery = searchQueryEcho p,
        sr_pagination =
          \<lparr>currentPage = parsedPage p,
           totalPages =
             jsCeil (jsDiv (numOfNat (length (filter (matches eng (searchQuery p)) docs)))
               (limitNumber p)),
           pageLimit = parsedLimit p,
           total = length (filter (matches eng (searchQuery p)) docs),
           hasNext =
             jsLess (pageNumber p)
               (jsCeil (jsDiv (numOfNat (length (filter (matches eng (searchQuery p)) docs)))
                  (limitNumber p))),
           hasPrev = jsLess (Fin 1) (pageNumber p)\<rparr>,
        sr_data = window k l (searchSorted eng docs p)\<rparr>"
proof -
  from assms obtain recipes where
    f: "find_docs eng docs (searchQuery p) (searchSort p) (searchSkip p)
          (parsedLimit p) = Inr recipes"
    by (auto simp: searchRecipes_def split: sum.splits)
  then have nr: "\<not> rejected eng (searchQuery p) (searchSort p)"
    by (auto simp: find_docs_def split: if_splits)
  from f nr obtain k l where
    k: "asInteger (searchSkip p) = Some k" and l: "asInteger (parsedLimit p) = Some l"
    by (auto simp: find_docs_def split: option.splits)
  from f nr k l have k0: "0 \<le> k" and
    r: "recipes = window k l (searchSorted eng docs p)"
    by (auto simp: find_docs_def searchSorted_def split: if_splits)
  have c: "countDocuments eng docs (searchQuery p) =
      Inr (length (filter (matches eng (searchQuery p)) docs))"
    using rejected_CreatedAtDesc [OF nr] by (simp add: countDocuments_def)
  from assms f c r have "resp =
       \<lparr>sr_count = length (window k l (searchSorted eng docs p)),
        sr_searchQuery = searchQueryEcho p,
        sr_pagination =
          \<lparr>currentPage = parsedPage p,
           totalPages =
             jsCeil (jsDiv (numOfNat (length (filter (matches eng (searchQuery p)) docs)))
               (limitNumber p)),
           pageLimit = parsedLimit p,
           total = length (filter (matches eng (searchQuery p)) docs),
           hasNext =
             jsLess (pageNumber p)
               (jsCeil (jsDiv (numOfNat (length (filter (matches eng (searchQuery p)) docs)))
                  (limitNumber p))),
           hasPrev = jsLess (Fin 1) (pageNumber p)\<rparr>,
        sr_data = window k l (searchSorted eng docs p)\<rparr>"
    by (simp add: searchRecipes_def)
  with k k0 l show thesis by (rule that)
qed

text \<open>
  C3 (as amended). For every answered search request, the response echoes each search
  parameter as the request gave it (null when the parameter is absent or empty), whether or
  not its clause was applied. The clauses applied are computed from the echoed values: the
  difficulty clause only when the echoed value is in the enum, the tags clause with the
  echoed string split at commas and each part trimmed and lower-cased, a range clause only
  when the echoed value converts to a number.
\<close>

theorem search_echo_is_raw:
  assumes "searchRecipes eng docs p = Inr resp"
  shows "textSearch (sr_searchQuery resp) = truthy (sp_q p) \<and>
         echo_ingredient (sr_searchQuery resp) = truthy (sp_ingredient p) \<and>
         echo_difficulty (sr_searchQuery resp) = truthy (sp_difficulty p) \<and>
         echo_tags (sr_searchQuery resp) = truthy (sp_tags p) \<and>
         echo_cookingTimeMax (sr_searchQuery resp) = truthy (sp_cookingTimeMax p) \<and>
         echo_servingsMin (sr_searchQuery resp) = truthy (sp_servingsMin p) \<and>
         q_difficulty (searchQuery p) =
           (case echo_difficulty (sr_searchQuery resp) of
              None \<Rightarrow> None
            | Some d \<Rightarrow> if d \<in> set difficultyEnum then Some d else None) \<and>
         q_tags (searchQuery p) =
           map_option (\<lambda>s. map (\<lambda>t. toLowerCase (trim t)) (splitOn CHR '','' s))
             (echo_tags (sr_searchQuery resp)) \<and>
         q_cookingTime (searchQuery p) = numericBound (echo_cookingTimeMax (sr_searchQuery resp)) \<and>
         q_servings (searchQuery p) = numericBound (echo_servingsMin (sr_searchQuery resp))"
proof -
  from assms have "sr_searchQuery resp = searchQueryEcho p"
    by (rule searchRecipes_Inr) simp
  then show ?thesis
    by (simp add: searchQueryEcho_def searchQuery_def numericBound_def truthy_idem)
qed

lemma looseSearch_answer:
  "searchRecipes exampleEngine [pancakes, broth] looseSearch =
     Inr \<lparr>sr_count = 2,
          sr_searchQuery =
            \<lparr>textSearch = None, echo_ingredient = None, echo_difficulty = Some ''extreme'',
             echo_tags = Some '' Quick'', echo_cookingTimeMax = Some ''abc'',
             echo_servingsMin = None\<rparr>,
          sr_pagination =
            \<lparr>currentPage = Fin 1, totalPages = Fin 1, pageLimit = Fin 10,
             total = 2, hasNext = False, hasPrev = False\<rparr>,
          sr_data = [broth, pancakes]\<rparr>"
  by code_simp

lemma looseSearch_query:
  "searchQuery looseSearch =
     \<lparr>q_text = None, q_ingredients = None, q_difficulty = None, q_tags = Some [''quick''],
      q_cookingTime = None, q_servings = None\<rparr>"
  by code_simp

theorem search_echo_is_raw_witness:
  "\<exists>resp. searchRecipes exampleEngine [pancakes, broth] looseSearch = Inr resp \<and>
      echo_difficulty (sr_searchQuery resp) = Some ''extreme'' \<and>
      echo_tags (sr_searchQuery resp) = Some '' Quick'' \<and>
      q_tags (searchQuery looseSearch) = Some [''quick'']"
proof -
  from search_echo_is_raw [OF looseSearch_answer]
  have "echo_difficulty (sr_searchQuery
      \<lparr>sr_count = 2,
       sr_searchQuery =
         \<lparr>textSearch = None, echo_ingredient = None, echo_difficulty = Some ''extreme'',
          echo_tags = Some '' Quick'', echo_cookingTimeMax = Some ''abc'',
          echo_servingsMin = None\<rparr>,
       sr_pagination =
         \<lparr>currentPage = Fin 1, totalPages = Fin 1, pageLimit = Fin 10,
          total = 2, hasNext = False, hasPrev = False\<rparr>,
       sr_data = [broth, pancakes]\<rparr>) = truthy (sp_difficulty looseSearch)"
    by blast
  then show ?thesis
    using looseSearch_answer looseSearch_query by simp
qed

theorem search_echo_dropped_filter_counterexample:
  "q_difficulty (searchQuery looseSearch) = None \<and>
   q_cookingTime (searchQuery looseSearch) = None \<and>
   q_tags (searchQuery looseSearch) = Some [''quick''] \<and>
   searchRecipes exampleEngine [pancakes, broth] looseSearch =
     Inr \<lparr>sr_count = 2,
          sr_searchQuery =
            \<lparr>textSearch = None, echo_ingredient = None, echo_difficulty = Some ''extreme'',
             echo_tags = Some '' Quick'', echo_cookingTimeMax = Some ''abc'',
             echo_servingsMin = None\<rparr>,
          sr_pagination =
            \<lparr>currentPage = Fin 1, totalPages = Fin 1, pageLimit = Fin 10,
             total = 2, hasNext = False, hasPrev = False\<rparr>,
          sr_data = [broth, pancakes]\<rparr>"
  by (simp add: looseSearch_answer looseSearch_query)

section \<open>Difficulty in search and in list\<close>

lemma searchQuery_invalid_difficulty:
  "d \<notin> set difficultyEnum \<Longrightarrow>
     searchQuery (p\<lparr>sp_difficulty := Some d\<rparr>) = searchQuery (p\<lparr>sp_difficulty := None\<rparr>)"
  by (simp add: searchQuery_def truthy_def)

lemma search_difficulty_irrelevant:
  "searchSort (p\<lparr>sp_difficulty := v\<rparr>) = searchSort p"
  "searchSkip (p\<lparr>sp_difficulty := v\<rparr>) = searchSkip p"
  "parsedLimit (p\<lparr>sp_difficulty := v\<rparr>) = parsedLimit p"
  "parsedPage (p\<lparr>sp_difficulty := v\<rparr>) = parsedPage p"
  "pageNumber (p\<lparr>sp_difficulty := v\<rparr>) = pageNumber p"
  "limitNumber (p\<lparr>sp_difficulty := v\<rparr>) = limitNumber p"
  by (simp_all add: searchSort_def searchSkip_def parsedLimit_def parsedPage_def
      pageNumber_def limitNumber_def)

lemma searchQueryEcho_difficulty:
  "searchQueryEcho (p\<lparr>sp_difficulty := v\<rparr>) =
     (searchQueryEcho (p\<lparr>sp_difficulty := None\<rparr>))\<lparr>echo_difficulty := truthy v\<rparr>"
  by (simp add: searchQueryEcho_def)

lemma searchRecipes_invalid_difficulty:
  assumes "d \<notin> set difficultyEnum"
  shows "searchRecipes eng docs (p\<lparr>sp_difficulty := Some d\<rparr>) =
           (case searchRecipes eng docs (p\<lparr>sp_difficulty := None\<rparr>) of
              Inl e \<Rightarrow> Inl e
            | Inr r \<Rightarrow> Inr (r\<lparr>sr_searchQuery :=
                               (sr_searchQuery r)\<lparr>echo_difficulty := truthy (Some d)\<rparr>\<rparr>))"
  unfolding searchRecipes_def searchQuery_invalid_difficulty [OF assms]
    search_difficulty_irrelevant searchQueryEcho_difficulty [where v = "Some d"]
  by (simp split: sum.splits)

lemma listMatching_unknown_difficulty:
  assumes "d \<noteq> []" and "list_all (\<lambda>r. difficulty r \<noteq> d) docs"
  shows "listMatching eng docs (q\<lparr>lq_difficulty := Some d\<rparr>) = []"
proof -
  have "\<not> matches eng (listFilter (q\<lparr>lq_difficulty := Some d\<rparr>)) r" if "r \<in> set docs" for r
    using that assms by (auto simp: matches_def listFilter_def truthy_def list_all_iff)
  then show ?thesis
    by (simp add: listMatching_def)
qed

text \<open>
  C4 (as amended). For every difficulty string outside the enum, the search operation
  omits the difficulty clause: its query is the query of the same request without
  difficulty, and its answer is that request's answer (an error exactly when that one is),
  with only the echoed difficulty differing. The list operation applies every non-empty
  difficulty string verbatim as an equality clause, so when no stored record carries that
  value every answer has total 0 and no data. An empty difficulty string is ignored by the
  list operation as well.
\<close>

theorem invalid_difficulty_search_and_list:
  assumes "d \<notin> set difficultyEnum"
  shows "q_difficulty (searchQuery (p\<lparr>sp_difficulty := Some d\<rparr>)) = None \<and>
         searchQuery (p\<lparr>sp_difficulty := Some d\<rparr>) = searchQuery (p\<lparr>sp_difficulty := None\<rparr>) \<and>
         searchRecipes eng docs (p\<lparr>sp_difficulty := Some d\<rparr>) =
           (case searchRecipes eng docs (p\<lparr>sp_difficulty := None\<rparr>) of
              Inl e \<Rightarrow> Inl e
            | Inr r \<Rightarrow> Inr (r\<lparr>sr_searchQuery :=
                               (sr_searchQuery r)\<lparr>echo_difficulty := truthy (Some d)\<rparr>\<rparr>)) \<and>
         (d \<noteq> [] \<longrightarrow>
            q_difficulty (listFilter (q\<lparr>lq_difficulty := Some d\<rparr>)) = Some d \<and>
            (list_all (\<lambda>r. difficulty r \<noteq> d) docs \<longrightarrow>
               (\<forall>resp. getAllRecipes eng docs (q\<lparr>lq_difficulty := Some d\<rparr>) = Inr resp \<longrightarrow>
                  lr_data resp = [] \<and> lr_count resp = 0 \<and> total (lr_pagination resp) = 0))) \<and>
         (d = [] \<longrightarrow>
            listFilter (q\<lparr>lq_difficulty := Some d\<rparr>) = listFilter (q\<lparr>lq_difficulty := None\<rparr>))"
proof -
  have 1: "q_difficulty (searchQuery (p\<lparr>sp_difficulty := Some d\<rparr>)) = None"
    using assms by (simp add: searchQuery_def truthy_def)
  have 2: "d \<noteq> [] \<longrightarrow> q_difficulty (listFilter (q\<lparr>lq_difficulty := Some d\<rparr>)) = Some d"
    by (simp add: listFilter_def truthy_def)
  have 3: "lr_data resp = [] \<and> lr_count resp = 0 \<and> total (lr_pagination resp) = 0"
    if "d \<noteq> []" "list_all (\<lambda>r. difficulty r \<noteq> d) docs"
       "getAllRecipes eng docs (q\<lparr>lq_difficulty := Some d\<rparr>) = Inr resp" for resp
  proof -
    have m: "listMatching eng docs (q\<lparr>lq_difficulty := Some d\<rparr>) = []"
      using that(1,2) by (rule listMatching_unknown_difficulty)
    from that(3) show ?thesis
      by (rule getAllRecipes_Inr) (simp add: m window_def)
  qed
  have 4: "d = [] \<longrightarrow>
      listFilter (q\<lparr>lq_difficulty := Some d\<rparr>) = listFilter (q\<lparr>lq_difficulty := None\<rparr>)"
    by (simp add: listFilter_def truthy_def)
  from 1 2 3 4 searchQuery_invalid_difficulty [OF assms, of p]
    searchRecipes_invalid_difficulty [OF assms, of eng docs p]
  show ?thesis by blast
qed

lemma extreme_invalid: "''extreme'' \<notin> set difficultyEnum"
  by (simp add: difficultyEnum_def)

lemma list_extreme_answer:
  "getAllRecipes exampleEngine [pancakes, broth] (listAll\<lparr>lq_difficulty := Some ''extreme''\<rparr>) =
     Inr \<lparr>lr_count = 0,
          lr_pagination = \<lparr>currentPage = Fin 1, totalPages = Fin 0, pageLimit = Fin 10, total = 0,
                            hasNext = False, hasPrev = False\<rparr>,
          lr_data = []\<rparr>"
  by code_simp

lemma search_extreme_answer:
  "searchRecipes exampleEngine [pancakes, broth] (searchAll\<lparr>sp_difficulty := Some ''extreme''\<rparr>) =
     Inr \<lparr>sr_count = 2,
          sr_searchQuery =
            \<lparr>textSearch = None, echo_ingredient = None, echo_difficulty = Some ''extreme'',
             echo_tags = None, echo_cookingTimeMax = None, echo_servingsMin = None\<rparr>,
          sr_pagination =
            \<lparr>currentPage = Fin 1, totalPages = Fin 1, pageLimit = Fin 10,
             total = 2, hasNext = False, hasPrev = False\<rparr>,
          sr_data = [broth, pancakes]\<rparr>"
  by code_simp

theorem invalid_difficulty_search_and_list_witness:
  "''extreme'' \<notin> set difficultyEnum \<and> ''extreme'' \<noteq> [] \<and>
   list_all (\<lambda>r. difficulty r \<noteq> ''extreme'') [pancakes, broth] \<and>
   q_difficulty (searchQuery (searchAll\<lparr>sp_difficulty := Some ''extreme''\<rparr>)) = None \<and>
   (\<exists>r. searchRecipes exampleEngine [pancakes, broth]
          (searchAll\<lparr>sp_difficulty := Some ''extreme''\<rparr>) = Inr r \<and>
        sr_data r = [broth, pancakes]) \<and>
   (\<exists>resp. getAllRecipes exampleEngine [pancakes, broth]
             (listAll\<lparr>lq_difficulty := Some ''extreme''\<rparr>) = Inr resp \<and>
           lr_data resp = [] \<and> total (lr_pagination resp) = 0)"
proof -
  have a: "list_all (\<lambda>r. difficulty r \<noteq> ''extreme'') [pancakes, broth]"
    by (simp add: pancakes_def broth_def)
  from invalid_difficulty_search_and_list [OF extreme_invalid, of searchAll]
  have "q_difficulty (searchQuery (searchAll\<lparr>sp_difficulty := Some ''extreme''\<rparr>)) = None"
    by blast
  then show ?thesis
    using extreme_invalid a list_extreme_answer search_extreme_answer by simp
qed

theorem list_empty_difficulty_counterexample:
  "[] \<notin> set difficultyEnum \<and> difficulty pancakes \<noteq> [] \<and>
   q_difficulty (listFilter (listAll\<lparr>lq_difficulty := Some []\<rparr>)) = None \<and>
   getAllRecipes exampleEngine [pancakes] (listAll\<lparr>lq_difficulty := Some []\<rparr>) =
     Inr \<lparr>lr_count = 1,
          lr_pagination = \<lparr>currentPage = Fin 1, totalPages = Fin 1, pageLimit = Fin 10, total = 1,
                            hasNext = False, hasPrev = False\<rparr>,
          lr_data = [pancakes]\<rparr>"
  by code_simp

section \<open>Page and limit\<close>

lemma parseInt_rounds: "parseInt ''9007199254740993'' = Fin 9007199254740992"
  by code_simp

lemma window_positive: "0 < l \<Longrightarrow> window k l xs = take (nat l) (drop (nat k) xs)"
  by (simp add: window_def)

lemma list_defaults:
  "listPage (q\<lparr>lq_page := None\<rparr>) = Fin 1" "listLimit (q\<lparr>lq_limit := None\<rparr>) = Fin 10"
  by (simp_all add: listPage_def listLimit_def parseIntParam_def orDefault_def)

lemma search_defaults:
  "parsedPage (p\<lparr>sp_page := None\<rparr>) = Fin 1" "pageNumber (p\<lparr>sp_page := None\<rparr>) = Fin 1"
  "parsedLimit (p\<lparr>sp_limit := None\<rparr>) = Fin 10" "limitNumber (p\<lparr>sp_limit := None\<rparr>) = Fin 10"
  by (simp_all add: parsedPage_def pageNumber_def parsedLimit_def limitNumber_def)

text \<open>
  C5. The claim has a negative, zero or non-numeric page or limit become its default. The
  list handler falls back to page 1 for a page that \<open>parseInt\<close> reads as NaN or as 0
  (\<open>abc\<close>, \<open>0\<close>), but it keeps a negative page: page \<open>-2\<close> gives the skip -30, the
  store refuses it and the request is answered with status 500, where the request without
  a page is answered with the first page. The search handler has no fallback for a
  parameter that is present: page \<open>0\<close> gives the skip -10 and status 500.
\<close>

theorem pagination_negative_page_fails:
  "listPage (listAll\<lparr>lq_page := Some ''abc''\<rparr>) = Fin 1 \<and>
   listPage (listAll\<lparr>lq_page := Some ''0''\<rparr>) = Fin 1 \<and>
   listPage (listAll\<lparr>lq_page := Some ''-2''\<rparr>) = Fin (- 2) \<and>
   listSkip (listAll\<lparr>lq_page := Some ''-2''\<rparr>) = Fin (- 30) \<and>
   getAllRecipes exampleEngine [pancakes] (listAll\<lparr>lq_page := Some ''-2''\<rparr>) =
     Inl Unexpected \<and>
   getAllRecipes exampleEngine [pancakes] listAll =
     Inr \<lparr>lr_count = 1,
          lr_pagination = \<lparr>currentPage = Fin 1, totalPages = Fin 1, pageLimit = Fin 10,
                            total = 1, hasNext = False, hasPrev = False\<rparr>,
          lr_data = [pancakes]\<rparr> \<and>
   searchSkip (searchAll\<lparr>sp_page := Some ''0''\<rparr>) = Fin (- 10) \<and>
   searchRecipes exampleEngine [pancakes] (searchAll\<lparr>sp_page := Some ''0''\<rparr>) =
     Inl Unexpected"
  by code_simp


end
